theory Spec2Isabelle
  imports Main
begin

section \<open>Python strings\<close>

text \<open>
  A Python \<open>str\<close> is a sequence of Unicode code points. The literals of \<open>main.py\<close> are
  Cyrillic, so a string is a list of code points here. \<open>ustr\<close> embeds an ASCII literal.
\<close>

type_synonym ustring = "nat list"

definition ustr :: "string \<Rightarrow> ustring" where
  "ustr s = map of_char s"

text \<open>
  \<open>str.isspace\<close> on one code point: the code points Python's \<open>str.strip()\<close> removes.
\<close>

definition isspace :: "nat \<Rightarrow> bool" where
  "isspace c =
     ((9 \<le> c \<and> c \<le> 13) \<or> (28 \<le> c \<and> c \<le> 32) \<or> c = 133 \<or> c = 160 \<or> c = 5760
      \<or> (8192 \<le> c \<and> c \<le> 8202) \<or> c = 8232 \<or> c = 8233 \<or> c = 8239 \<or> c = 8287
      \<or> c = 12288)"

definition str_strip :: "ustring \<Rightarrow> ustring" where
  "str_strip s = rev (dropWhile isspace (rev (dropWhile isspace s)))"

text \<open>
  \<open>s.replace(old, new)\<close> for one-character \<open>old\<close> and \<open>new\<close>, the only use in the source
  (\<open>replace(" ", "+")\<close>): every occurrence is replaced, one for one.
\<close>

definition str_replace_char :: "nat \<Rightarrow> nat \<Rightarrow> ustring \<Rightarrow> ustring" where
  "str_replace_char old new s = map (\<lambda>c. if c = old then new else c) s"

text \<open>
  \<open>str.lower\<close> is not modelled by a definition: its case mapping is the Unicode table of the
  Python runtime, it is not one code point for one (U+0130 gives two) and it reads the
  context (a final sigma). Every function that lower-cases takes it as its first
  parameter \<open>lower\<close>, and what is proved of such a function is proved for every \<open>lower\<close>.
\<close>

text \<open>\<open>s.startswith(p)\<close> and the substring test \<open>sub in s\<close>.\<close>

fun startswith :: "'a list \<Rightarrow> 'a list \<Rightarrow> bool" where
  "startswith s [] = True"
| "startswith [] (p # ps) = False"
| "startswith (c # cs) (p # ps) = (c = p \<and> startswith cs ps)"

fun str_in :: "'a list \<Rightarrow> 'a list \<Rightarrow> bool" where
  "str_in sub [] = (sub = [])"
| "str_in sub (c # cs) = (startswith (c # cs) sub \<or> str_in sub cs)"

section \<open>Recipes and the recipe source adapter\<close>

text \<open>
  A recipe is the dict the search returns and the handlers read: keys \<open>id\<close>, \<open>title\<close>,
  \<open>image\<close>, \<open>usedIngredientCount\<close>, \<open>missedIngredientCount\<close>, all five present as in
  the local table and in the answer of the remote service. \<open>r_image = None\<close> is a JSON
  \<open>null\<close> (or an SQL NULL read back). Python integers are unbounded: \<open>int\<close>.
\<close>

record recipe =
  r_id :: int
  r_title :: ustring
  r_image :: "ustring option"
  r_usedIngredientCount :: int
  r_missedIngredientCount :: int

text \<open>
  The two literals of \<open>get_local_recipes\<close> (line 158):
  U+044F U+0439 U+0446 U+0430 (Russian for eggs) and
  U+043C U+043E U+043B U+043E U+043A U+043E (Russian for milk).
\<close>

definition tok_eggs :: ustring where
  "tok_eggs = [1103, 1081, 1094, 1072]"

definition tok_milk :: ustring where
  "tok_milk = [1084, 1086, 1083, 1086, 1082, 1086]"

text \<open>
  \<open>basic_recipes\<close> (lines 140-155), its two dicts named. The titles are the Russian for
  "Omelette with milk" and "Pancakes on milk", as code points.
\<close>

definition omelette :: recipe where
  "omelette =
     \<lparr>r_id = 1,
      r_title = [1054, 1084, 1083, 1077, 1090, 32, 1089, 32,
                 1084, 1086, 1083, 1086, 1082, 1086, 1084],
      r_image = Some (ustr ''https://spoonacular.com/recipeImages/1-312x231.jpg''),
      r_usedIngredientCount = 2, r_missedIngredientCount = 1\<rparr>"

definition pancakes :: recipe where
  "pancakes =
     \<lparr>r_id = 2,
      r_title = [1041, 1083, 1080, 1085, 1099, 32, 1085, 1072, 32,
                 1084, 1086, 1083, 1086, 1082, 1077],
      r_image = Some (ustr ''https://spoonacular.com/recipeImages/2-312x231.jpg''),
      r_usedIngredientCount = 3, r_missedIngredientCount = 2\<rparr>"

definition basic_recipes :: "recipe list" where
  "basic_recipes = [omelette, pancakes]"

definition get_local_recipes :: "(ustring \<Rightarrow> ustring) \<Rightarrow> ustring \<Rightarrow> recipe list" where
  "get_local_recipes lower ingredients =
     (let ingredients_lower = lower ingredients
      in filter (\<lambda>r. str_in tok_eggs ingredients_lower \<and> str_in tok_milk ingredients_lower)
           basic_recipes)"

text \<open>
  The request of \<open>_call_spoonacular_api\<close>: the \<open>params\<close> dict of lines 74-80.
\<close>

record request =
  p_ingredients :: ustring
  p_apiKey :: ustring
  p_number :: nat
  p_ranking :: nat
  p_ignorePantry :: bool

definition spoonacular_params ::
  "(ustring \<Rightarrow> ustring) \<Rightarrow> ustring \<Rightarrow> ustring \<Rightarrow> request" where
  "spoonacular_params lower api_key ingredients =
     (let ingredients_cleaned = lower (str_replace_char 32 43 (str_strip ingredients))
      in \<lparr>p_ingredients = ingredients_cleaned, p_apiKey = api_key, p_number = 10,
          p_ranking = 2, p_ignorePantry = True\<rparr>)"

text \<open>
  What \<open>requests.get\<close> can do: raise a \<open>RequestException\<close> (timeout, connection failure),
  or return a response with a status code and a body. \<open>response.json()\<close> raises on a body
  that is not JSON; a JSON body is read as the list of recipe dicts the function's
  annotation \<open>List[Dict]\<close> promises.
\<close>

datatype json_body = NotJson | JsonRecipes "recipe list"

datatype http_outcome = RequestFailed | Response int json_body

datatype py_error =
  RequestException | HTTPError | JSONDecodeError
  | ValueError | IndexError | AttributeError
  | OverflowError | UnicodeEncodeError

text \<open>
  The body of the \<open>try\<close> of lines 82-91. \<open>raise_for_status\<close> raises \<open>HTTPError\<close> exactly
  for the status codes 400..599.
\<close>

definition api_request :: "(request \<Rightarrow> http_outcome) \<Rightarrow> request \<Rightarrow> py_error + recipe list" where
  "api_request remote params =
     (case remote params of
        RequestFailed \<Rightarrow> Inl RequestException
      | Response status_code body \<Rightarrow>
          if status_code = 402 then Inr []
          else if 400 \<le> status_code \<and> status_code < 600 then Inl HTTPError
          else (case body of NotJson \<Rightarrow> Inl JSONDecodeError | JsonRecipes rs \<Rightarrow> Inr rs))"

text \<open>
  \<open>_call_spoonacular_api\<close> (lines 64-98). \<open>env_key\<close> is \<open>os.getenv("SPOONACULAR_API_KEY")\<close>:
  \<open>None\<close> when unset; \<open>not api_key\<close> also holds for the empty string. Both \<open>except\<close>
  clauses return the empty list.
\<close>

definition call_spoonacular_api ::
  "(ustring \<Rightarrow> ustring) \<Rightarrow> ustring option \<Rightarrow> (request \<Rightarrow> http_outcome) \<Rightarrow> ustring
   \<Rightarrow> recipe list" where
  "call_spoonacular_api lower env_key remote ingredients =
     (case env_key of
        None \<Rightarrow> []
      | Some api_key \<Rightarrow>
          if api_key = [] then []
          else (case api_request remote (spoonacular_params lower api_key ingredients) of
                  Inl e \<Rightarrow> []
                | Inr rs \<Rightarrow> rs))"

text \<open>
  \<open>search_recipes\<close> (lines 176-186). \<open>_call_spoonacular_api\<close> catches every exception
  itself, so the \<open>except\<close> clause of \<open>search_recipes\<close> has nothing to catch.
\<close>

definition search_recipes ::
  "(ustring \<Rightarrow> ustring) \<Rightarrow> ustring option \<Rightarrow> (request \<Rightarrow> http_outcome) \<Rightarrow> ustring
   \<Rightarrow> recipe list" where
  "search_recipes lower env_key remote ingredients =
     (let api_recipes = call_spoonacular_api lower env_key remote ingredients
      in if api_recipes \<noteq> [] then api_recipes else get_local_recipes lower ingredients)"

text \<open>
  For evaluating the adapter at concrete inputs. \<open>lower_basic\<close> stands for the parameter
  \<open>lower\<close> there: on a text whose code points all lie in Basic Latin, Latin-1 or the
  Cyrillic block U+0400..U+045F it is what \<open>str.lower\<close> returns (in these blocks the lower
  case is one code point for one and does not depend on the context); \<open>basic_text\<close> is
  that condition. It is used at such texts only and says nothing of \<open>str.lower\<close>
  elsewhere. \<open>remote_down\<close> is a service that cannot be reached, \<open>remote_answers\<close> one that
  answers every request with the same status and body. \<open>soup\<close>, \<open>broth\<close> and \<open>stew\<close> are
  recipes as a remote service could send them: with a negative count, with a count of
  \<open>2^63\<close>, with the id \<open>2^63\<close>.
\<close>

definition lower_cp :: "nat \<Rightarrow> nat" where
  "lower_cp c =
     (if 65 \<le> c \<and> c \<le> 90 then c + 32
      else if 192 \<le> c \<and> c \<le> 222 \<and> c \<noteq> 215 then c + 32
      else if 1024 \<le> c \<and> c \<le> 1039 then c + 80
      else if 1040 \<le> c \<and> c \<le> 1071 then c + 32
      else c)"

definition lower_basic :: "ustring \<Rightarrow> ustring" where
  "lower_basic s = map lower_cp s"

definition basic_text :: "ustring \<Rightarrow> bool" where
  "basic_text s = list_all (\<lambda>c. c < 256 \<or> (1024 \<le> c \<and> c \<le> 1119)) s"

definition remote_down :: "request \<Rightarrow> http_outcome" where
  "remote_down params = RequestFailed"

definition remote_answers :: "int \<Rightarrow> json_body \<Rightarrow> request \<Rightarrow> http_outcome" where
  "remote_answers status_code body params = Response status_code body"

definition soup :: recipe where
  "soup = \<lparr>r_id = 5, r_title = ustr ''soup'', r_image = None,
           r_usedIngredientCount = - 1, r_missedIngredientCount = 0\<rparr>"

definition broth :: recipe where
  "broth = \<lparr>r_id = 6, r_title = ustr ''broth'', r_image = None,
            r_usedIngredientCount = 9223372036854775808, r_missedIngredientCount = 0\<rparr>"

definition stew :: recipe where
  "stew = \<lparr>r_id = 9223372036854775808, r_title = ustr ''stew'', r_image = None,
           r_usedIngredientCount = 1, r_missedIngredientCount = 0\<rparr>"

section \<open>The favorites store\<close>

text \<open>
  A row of the table \<open>favorites\<close> (lines 50-55). The table is the list of its rows in
  rowid order; every function below is one SQL statement on it. Opening the database and
  running a statement whose parameters are bound are taken to succeed.
\<close>

record favorite_row =
  f_id :: int
  f_recipe_id :: int
  f_title :: ustring
  f_image :: "ustring option"
  f_used_ingredients :: int
  f_missed_ingredients :: int
  f_user_id :: int

type_synonym favorites_table = "favorite_row list"

text \<open>The key SQLite gives an inserted row: one more than the largest \<open>id\<close> in the table.\<close>

definition next_rowid :: "favorites_table \<Rightarrow> int" where
  "next_rowid tbl = foldr max (map f_id tbl) 0 + 1"

text \<open>
  Binding a parameter of a statement. \<open>sqlite3\<close> raises \<open>OverflowError\<close> for an integer
  outside the signed 64 bits of an SQLite INTEGER, and \<open>UnicodeEncodeError\<close> for a string
  with a surrogate code point (U+D800..U+DFFF), which has no UTF-8 encoding. The parameters
  are bound in their order, the first that cannot be bound raises, and the statement is
  then not run. (A text of more than SQLite's limit of 10^9 bytes would be refused too;
  no text of that size is considered.)
\<close>

definition sqlite_int :: "int \<Rightarrow> bool" where
  "sqlite_int i = (- 9223372036854775808 \<le> i \<and> i \<le> 9223372036854775807)"

definition sqlite_text :: "ustring \<Rightarrow> bool" where
  "sqlite_text s = list_all (\<lambda>c. \<not> (55296 \<le> c \<and> c \<le> 57343)) s"

definition bind_int :: "int \<Rightarrow> py_error option" where
  "bind_int i = (if sqlite_int i then None else Some OverflowError)"

definition bind_text :: "ustring option \<Rightarrow> py_error option" where
  "bind_text t = (case t of None \<Rightarrow> None
                  | Some s \<Rightarrow> if sqlite_text s then None else Some UnicodeEncodeError)"

fun first_error :: "py_error option list \<Rightarrow> py_error option" where
  "first_error [] = None"
| "first_error (None # bs) = first_error bs"
| "first_error (Some e # bs) = Some e"

text \<open>
  \<open>add_favorite\<close> (lines 190-206): an INSERT, with no check for a row already there.
  \<open>bind_favorite\<close> binds its six parameters, \<open>insert_favorite\<close> is the INSERT itself.
\<close>

definition bind_favorite :: "recipe \<Rightarrow> int \<Rightarrow> py_error option" where
  "bind_favorite recipe user_id =
     first_error [bind_int (r_id recipe), bind_text (Some (r_title recipe)),
                  bind_text (r_image recipe), bind_int (r_usedIngredientCount recipe),
                  bind_int (r_missedIngredientCount recipe), bind_int user_id]"

definition insert_favorite :: "recipe \<Rightarrow> int \<Rightarrow> favorites_table \<Rightarrow> favorites_table" where
  "insert_favorite recipe user_id tbl =
     tbl @ [\<lparr>f_id = next_rowid tbl, f_recipe_id = r_id recipe, f_title = r_title recipe,
              f_image = r_image recipe,
              f_used_ingredients = r_usedIngredientCount recipe,
              f_missed_ingredients = r_missedIngredientCount recipe,
              f_user_id = user_id\<rparr>]"

definition add_favorite :: "recipe \<Rightarrow> int \<Rightarrow> favorites_table \<Rightarrow> py_error + favorites_table" where
  "add_favorite recipe user_id tbl =
     (case bind_favorite recipe user_id of
        Some e \<Rightarrow> Inl e
      | None \<Rightarrow> Inr (insert_favorite recipe user_id tbl))"

text \<open>
  \<open>remove_favorite\<close> (lines 209-220): DELETE ... WHERE recipe_id = ? AND user_id = ?;
  \<open>delete_favorite\<close> is the DELETE itself.
\<close>

definition delete_favorite :: "int \<Rightarrow> int \<Rightarrow> favorites_table \<Rightarrow> favorites_table" where
  "delete_favorite recipe_id user_id tbl =
     filter (\<lambda>row. \<not> (f_recipe_id row = recipe_id \<and> f_user_id row = user_id)) tbl"

definition remove_favorite :: "int \<Rightarrow> int \<Rightarrow> favorites_table \<Rightarrow> py_error + favorites_table" where
  "remove_favorite recipe_id user_id tbl =
     (case first_error [bind_int recipe_id, bind_int user_id] of
        Some e \<Rightarrow> Inl e
      | None \<Rightarrow> Inr (delete_favorite recipe_id user_id tbl))"

text \<open>
  \<open>get_favorites\<close> (lines 223-238): the user's rows, each as a recipe dict;
  \<open>select_favorites\<close> is the SELECT itself.
\<close>

definition row_recipe :: "favorite_row \<Rightarrow> recipe" where
  "row_recipe row =
     \<lparr>r_id = f_recipe_id row, r_title = f_title row, r_image = f_image row,
      r_usedIngredientCount = f_used_ingredients row,
      r_missedIngredientCount = f_missed_ingredients row\<rparr>"

definition select_favorites :: "int \<Rightarrow> favorites_table \<Rightarrow> recipe list" where
  "select_favorites user_id tbl =
     map row_recipe (filter (\<lambda>row. f_user_id row = user_id) tbl)"

definition get_favorites :: "int \<Rightarrow> favorites_table \<Rightarrow> py_error + recipe list" where
  "get_favorites user_id tbl =
     (case bind_int user_id of
        Some e \<Rightarrow> Inl e
      | None \<Rightarrow> Inr (select_favorites user_id tbl))"

text \<open>
  \<open>is_favorite\<close> (lines 241-252): \<open>fetchone()\<close> of the matching rows is not \<open>None\<close>;
  \<open>exists_favorite\<close> is the SELECT itself.
\<close>

definition exists_favorite :: "int \<Rightarrow> int \<Rightarrow> favorites_table \<Rightarrow> bool" where
  "exists_favorite recipe_id user_id tbl =
     (filter (\<lambda>row. f_recipe_id row = recipe_id \<and> f_user_id row = user_id) tbl \<noteq> [])"

definition is_favorite :: "int \<Rightarrow> int \<Rightarrow> favorites_table \<Rightarrow> py_error + bool" where
  "is_favorite recipe_id user_id tbl =
     (case first_error [bind_int recipe_id, bind_int user_id] of
        Some e \<Rightarrow> Inl e
      | None \<Rightarrow> Inr (exists_favorite recipe_id user_id tbl))"

text \<open>
  What the table can hold: a row whose six values \<open>add_favorite\<close> could have bound. The
  empty table has only such rows, and \<open>add_favorite\<close> and \<open>remove_favorite\<close> keep it so.
\<close>

definition row_wf :: "favorite_row \<Rightarrow> bool" where
  "row_wf row = (bind_favorite (row_recipe row) (f_user_id row) = None)"

definition table_wf :: "favorites_table \<Rightarrow> bool" where
  "table_wf tbl = list_all row_wf tbl"

section \<open>The browsing sessions\<close>

text \<open>
  \<open>context.user_data\<close> of one user: a dict with the six keys the handlers use. A key that
  is absent is \<open>None\<close>; the handlers read with \<open>.get(key, default)\<close>.
\<close>

record user_data =
  recipes :: "recipe list option"
  current_recipe_index :: "int option"
  favorites :: "recipe list option"
  current_favorite_index :: "int option"
  last_photo_message_id :: "int option"
  last_fav_photo_message_id :: "int option"

text \<open>The state the handlers act on: the favorites table and the user's \<open>user_data\<close>.\<close>

record bot =
  table :: favorites_table
  ud :: user_data

definition get_recipes :: "bot \<Rightarrow> recipe list" where
  "get_recipes s = (case recipes (ud s) of None \<Rightarrow> [] | Some rs \<Rightarrow> rs)"

definition get_recipe_index :: "bot \<Rightarrow> int" where
  "get_recipe_index s = (case current_recipe_index (ud s) of None \<Rightarrow> 0 | Some i \<Rightarrow> i)"

definition get_favs :: "bot \<Rightarrow> recipe list" where
  "get_favs s = (case favorites (ud s) of None \<Rightarrow> [] | Some rs \<Rightarrow> rs)"

definition get_favorite_index :: "bot \<Rightarrow> int" where
  "get_favorite_index s = (case current_favorite_index (ud s) of None \<Rightarrow> 0 | Some i \<Rightarrow> i)"

text \<open>
  What a handler sends to the chat. The texts are Russian in the source; each constructor of
  \<open>reply\<close> is one literal: \<open>Searching\<close> line 294, \<open>NothingFound\<close> line 299, \<open>SearchError\<close>
  line 310, \<open>AllRecipesShown\<close> line 320, \<open>SearchFinished\<close> line 414, \<open>NoFavoritesYet\<close>
  line 448, \<open>AllFavoritesShown\<close> line 464, \<open>NoFavoritesLeft\<close> line 542 ("Recipe removed.
  There are no favorite recipes left.").

  A keyboard is the button set of lines 338-353 and 423-438 (\<open>RecipeKeyboard\<close>: whether the
  first button reads "in favorites" or "add to favorites", the recipe id in its callback
  data, the position shown) or of lines 479-487 (\<open>FavoriteKeyboard\<close>). The caption, built
  from the recipe and the details fetched for it, is stood for by the recipe.
\<close>

datatype reply =
  Searching | NothingFound | SearchError | AllRecipesShown | SearchFinished
  | NoFavoritesYet | AllFavoritesShown | NoFavoritesLeft

datatype keyboard =
  RecipeKeyboard bool int int int
  | FavoriteKeyboard int int int

datatype effect =
  AnswerQuery
  | ReplyText reply
  | DeleteMessage int
  | SendPhoto ustring recipe keyboard
  | SendMessage recipe keyboard
  | EditReplyMarkup "keyboard option"

text \<open>
  A handler returns \<open>None\<close>, \<open>ConversationHandler.END\<close> or a state, or raises. Its result
  here: that outcome, the state it leaves and what it sent. The calls of the Telegram API
  (answer, reply, send, edit) are taken to return, so a handler raises only what its own
  code or the store raises.
\<close>

datatype handler_return = ReturnNone | ReturnEND | ReturnSEARCH | ReturnFAVORITES

type_synonym result = "(py_error + handler_return) \<times> bot \<times> effect list"

text \<open>
  The update a handler runs on: \<open>update.message\<close> is \<open>None\<close> for a button press, so
  \<open>update.message.reply_text\<close> raises \<open>AttributeError\<close> there.
\<close>

datatype update_kind = MessageUpdate | CallbackUpdate

text \<open>
  \<open>xs[i]\<close>: a negative index counts from the end, an index out of range raises.
\<close>

definition py_index :: "'a list \<Rightarrow> int \<Rightarrow> 'a option" where
  "py_index xs i =
     (let n = int (length xs); j = (if i < 0 then n + i else i)
      in if 0 \<le> j \<and> j < n then Some (xs ! nat j) else None)"

text \<open>\<open>recipe.get("image")\<close> is true for a string that is not empty.\<close>

definition image_of :: "recipe \<Rightarrow> ustring option" where
  "image_of recipe = (case r_image recipe of None \<Rightarrow> None
                      | Some url \<Rightarrow> if url = [] then None else Some url)"

text \<open>
  \<open>int(action.split("_")[1])\<close>. Callback data is modelled as a \<open>string\<close>: a text of code
  points below 256. \<open>int\<close> skips white space at both ends (the ASCII white space 9..13 and
  32; of the code points from 128 on, those that \<open>str.isspace\<close> accepts: 133 and 160),
  takes an optional sign and decimal digits, with single underscores between digits, and
  raises \<open>ValueError\<close> on anything else, and on more than 4300 digits (the default limit
  of the runtime for the conversion).
\<close>

fun split_on :: "char \<Rightarrow> string \<Rightarrow> string list" where
  "split_on sep [] = [[]]"
| "split_on sep (c # cs) =
     (if c = sep then [] # split_on sep cs
      else (case split_on sep cs of [] \<Rightarrow> [[c]] | p # ps \<Rightarrow> (c # p) # ps))"

definition digit_of :: "char \<Rightarrow> nat option" where
  "digit_of c = (let n = (of_char c :: nat) in if 48 \<le> n \<and> n \<le> 57 then Some (n - 48) else None)"

fun parse_digits :: "nat \<Rightarrow> string \<Rightarrow> nat option" where
  "parse_digits acc [] = Some acc"
| "parse_digits acc (c # cs) =
     (case digit_of c of
        Some d \<Rightarrow> parse_digits (10 * acc + d) cs
      | None \<Rightarrow>
          if c = CHR ''_'' \<and> cs \<noteq> [] \<and> digit_of (hd cs) \<noteq> None then parse_digits acc cs
          else None)"

definition int_space :: "char \<Rightarrow> bool" where
  "int_space c =
     (let n = (of_char c :: nat) in (9 \<le> n \<and> n \<le> 13) \<or> n = 32 \<or> n = 133 \<or> n = 160)"

definition py_int :: "string \<Rightarrow> py_error + int" where
  "py_int s =
     (let t = rev (dropWhile int_space (rev (dropWhile int_space s)));
          digits = (if t \<noteq> [] \<and> (hd t = CHR ''-'' \<or> hd t = CHR ''+'') then tl t else t)
      in if digits = [] \<or> digit_of (hd digits) = None
            \<or> length (filter (\<lambda>c. c \<noteq> CHR ''_'') digits) > 4300
         then Inl ValueError
         else (case parse_digits 0 digits of
                 None \<Rightarrow> Inl ValueError
               | Some n \<Rightarrow> Inr (if hd t = CHR ''-'' then - int n else int n)))"

definition action_id :: "string \<Rightarrow> py_error + int" where
  "action_id action =
     (case split_on CHR ''_'' action of
        p0 # p1 # ps \<Rightarrow> py_int p1
      | _ \<Rightarrow> Inl IndexError)"

text \<open>\<open>get_recipe_keyboard\<close> (lines 420-440).\<close>

definition get_recipe_keyboard ::
  "recipe \<Rightarrow> int \<Rightarrow> int \<Rightarrow> int \<Rightarrow> favorites_table \<Rightarrow> py_error + keyboard" where
  "get_recipe_keyboard recipe user_id current_index total_recipes tbl =
     (case is_favorite (r_id recipe) user_id tbl of
        Inl e \<Rightarrow> Inl e
      | Inr is_fav \<Rightarrow>
          Inr (RecipeKeyboard is_fav (r_id recipe) (current_index + 1) total_recipes))"

text \<open>
  \<open>show_recipe\<close> (lines 314-383). \<open>new_id\<close> is the \<open>message_id\<close> Telegram gives the message
  sent. Deleting the previous message is best effort (\<open>except: pass\<close>). \<open>is_favorite\<close>
  is called, and can raise, before anything is sent.
\<close>

definition show_recipe :: "update_kind \<Rightarrow> int \<Rightarrow> int \<Rightarrow> bot \<Rightarrow> result" where
  "show_recipe kind user_id new_id s =
     (let rs = get_recipes s; current_index = get_recipe_index s
      in if rs = [] \<or> current_index \<ge> int (length rs) then
           (case kind of
              MessageUpdate \<Rightarrow> (Inr ReturnEND, s, [ReplyText AllRecipesShown])
            | CallbackUpdate \<Rightarrow> (Inl AttributeError, s, []))
         else (case py_index rs current_index of
                 None \<Rightarrow> (Inl IndexError, s, [])
               | Some recipe \<Rightarrow>
                   (case is_favorite (r_id recipe) user_id (table s) of
                      Inl e \<Rightarrow> (Inl e, s, [])
                    | Inr is_fav \<Rightarrow>
                        let reply_markup = RecipeKeyboard is_fav (r_id recipe)
                                             (current_index + 1) (int (length rs));
                            deleted = (case last_photo_message_id (ud s) of
                                         None \<Rightarrow> [] | Some m \<Rightarrow> [DeleteMessage m])
                        in (case image_of recipe of
                              Some url \<Rightarrow>
                                (Inr ReturnNone,
                                 s\<lparr>ud := (ud s)\<lparr>last_photo_message_id := Some new_id\<rparr>\<rparr>,
                                 deleted @ [SendPhoto url recipe reply_markup])
                            | None \<Rightarrow>
                                (Inr ReturnNone, s,
                                 deleted @ [SendMessage recipe reply_markup])))))"

text \<open>
  A handler's last statement \<open>await show_recipe(update, context)\<close>: what \<open>show_recipe\<close>
  returns is dropped, what it raises goes on; \<open>pre\<close> was sent before.
\<close>

definition then_show :: "effect list \<Rightarrow> result \<Rightarrow> result" where
  "then_show pre r =
     (case r of (out, s', fx) \<Rightarrow>
        ((case out of Inl e \<Rightarrow> Inl e | Inr v \<Rightarrow> Inr ReturnNone), s', pre @ fx))"

text \<open>\<open>process_search\<close> (lines 290-311): the start of a search session.\<close>

definition process_search ::
  "(ustring \<Rightarrow> ustring) \<Rightarrow> ustring \<Rightarrow> int \<Rightarrow> ustring option \<Rightarrow> (request \<Rightarrow> http_outcome)
   \<Rightarrow> int \<Rightarrow> bot \<Rightarrow> result" where
  "process_search lower ingredients user_id env_key remote new_id s =
     (let rs = search_recipes lower env_key remote ingredients
      in if rs = [] then (Inr ReturnEND, s, [ReplyText Searching, ReplyText NothingFound])
         else
           (let s1 = s\<lparr>ud := (ud s)\<lparr>recipes := Some rs, current_recipe_index := Some 0\<rparr>\<rparr>
            in (case show_recipe MessageUpdate user_id new_id s1 of
                  (Inl e, s2, fx) \<Rightarrow>
                    (Inr ReturnEND, s2, [ReplyText Searching] @ fx @ [ReplyText SearchError])
                | (Inr v, s2, fx) \<Rightarrow> (Inr ReturnSEARCH, s2, [ReplyText Searching] @ fx))))"

text \<open>\<open>handle_recipe_navigation\<close> (lines 386-417).\<close>

definition handle_recipe_navigation :: "string \<Rightarrow> int \<Rightarrow> int \<Rightarrow> bot \<Rightarrow> result" where
  "handle_recipe_navigation action user_id new_id s =
     (let current_index = get_recipe_index s; rs = get_recipes s
      in if action = ''prev'' \<and> current_index > 0 then
           then_show [AnswerQuery]
             (show_recipe CallbackUpdate user_id new_id
                (s\<lparr>ud := (ud s)\<lparr>current_recipe_index := Some (current_index - 1)\<rparr>\<rparr>))
         else if action = ''next'' \<and> current_index < int (length rs) - 1 then
           then_show [AnswerQuery]
             (show_recipe CallbackUpdate user_id new_id
                (s\<lparr>ud := (ud s)\<lparr>current_recipe_index := Some (current_index + 1)\<rparr>\<rparr>))
         else if startswith action ''fav_'' then
           (case action_id action of
              Inl e \<Rightarrow> (Inl e, s, [AnswerQuery])
            | Inr recipe_id \<Rightarrow>
                (case find (\<lambda>r. r_id r = recipe_id) rs of
                   None \<Rightarrow> (Inr ReturnNone, s, [AnswerQuery])
                 | Some recipe \<Rightarrow>
                     (case is_favorite recipe_id user_id (table s) of
                        Inl e \<Rightarrow> (Inl e, s, [AnswerQuery])
                      | Inr is_fav \<Rightarrow>
                          (case (if is_fav then remove_favorite recipe_id user_id (table s)
                                 else add_favorite recipe user_id (table s)) of
                             Inl e \<Rightarrow> (Inl e, s, [AnswerQuery])
                           | Inr tbl \<Rightarrow>
                               (case get_recipe_keyboard recipe user_id current_index
                                       (int (length rs)) tbl of
                                  Inl e \<Rightarrow> (Inl e, s\<lparr>table := tbl\<rparr>, [AnswerQuery])
                                | Inr reply_markup \<Rightarrow>
                                    (Inr ReturnNone, s\<lparr>table := tbl\<rparr>,
                                     [AnswerQuery, EditReplyMarkup (Some reply_markup)]))))))
         else if action = ''done'' then
           (Inr ReturnEND, s, [AnswerQuery, EditReplyMarkup None, ReplyText SearchFinished])
         else then_show [AnswerQuery] (show_recipe CallbackUpdate user_id new_id s))"

text \<open>\<open>show_favorite_recipe\<close> (lines 458-518); both sends record the message id.\<close>

definition show_favorite_recipe :: "update_kind \<Rightarrow> int \<Rightarrow> int \<Rightarrow> bot \<Rightarrow> result" where
  "show_favorite_recipe kind user_id new_id s =
     (let fs = get_favs s; current_index = get_favorite_index s
      in if fs = [] \<or> current_index \<ge> int (length fs) then
           (case kind of
              MessageUpdate \<Rightarrow> (Inr ReturnEND, s, [ReplyText AllFavoritesShown])
            | CallbackUpdate \<Rightarrow> (Inl AttributeError, s, []))
         else (case py_index fs current_index of
                 None \<Rightarrow> (Inl IndexError, s, [])
               | Some recipe \<Rightarrow>
                   let reply_markup = FavoriteKeyboard (r_id recipe) (current_index + 1)
                                        (int (length fs));
                       deleted = (case last_fav_photo_message_id (ud s) of
                                    None \<Rightarrow> [] | Some m \<Rightarrow> [DeleteMessage m]);
                       s' = s\<lparr>ud := (ud s)\<lparr>last_fav_photo_message_id := Some new_id\<rparr>\<rparr>
                   in (case image_of recipe of
                         Some url \<Rightarrow>
                           (Inr ReturnNone, s', deleted @ [SendPhoto url recipe reply_markup])
                       | None \<Rightarrow>
                           (Inr ReturnNone, s', deleted @ [SendMessage recipe reply_markup]))))"

text \<open>\<open>show_favorites\<close> (lines 443-455): the start of a favorites session.\<close>

definition show_favorites :: "int \<Rightarrow> int \<Rightarrow> bot \<Rightarrow> result" where
  "show_favorites user_id new_id s =
     (case get_favorites user_id (table s) of
        Inl e \<Rightarrow> (Inl e, s, [])
      | Inr fs \<Rightarrow>
          if fs = [] then (Inr ReturnNone, s, [ReplyText NoFavoritesYet])
          else
            (let s1 = s\<lparr>ud := (ud s)\<lparr>favorites := Some fs,
                                       current_favorite_index := Some 0\<rparr>\<rparr>
             in (case show_favorite_recipe MessageUpdate user_id new_id s1 of
                   (Inl e, s2, fx) \<Rightarrow> (Inl e, s2, fx)
                 | (Inr v, s2, fx) \<Rightarrow> (Inr ReturnFAVORITES, s2, fx))))"

text \<open>\<open>handle_favorites_navigation\<close> (lines 521-552).\<close>

definition handle_favorites_navigation :: "string \<Rightarrow> int \<Rightarrow> int \<Rightarrow> bot \<Rightarrow> result" where
  "handle_favorites_navigation action user_id new_id s =
     (let current_index = get_favorite_index s; fs = get_favs s
      in if action = ''fav_prev'' \<and> current_index > 0 then
           then_show [AnswerQuery]
             (show_favorite_recipe CallbackUpdate user_id new_id
                (s\<lparr>ud := (ud s)\<lparr>current_favorite_index := Some (current_index - 1)\<rparr>\<rparr>))
         else if action = ''fav_next'' \<and> current_index < int (length fs) - 1 then
           then_show [AnswerQuery]
             (show_favorite_recipe CallbackUpdate user_id new_id
                (s\<lparr>ud := (ud s)\<lparr>current_favorite_index := Some (current_index + 1)\<rparr>\<rparr>))
         else if startswith action ''remove_'' then
           (case action_id action of
              Inl e \<Rightarrow> (Inl e, s, [AnswerQuery])
            | Inr recipe_id \<Rightarrow>
                (case remove_favorite recipe_id user_id (table s) of
                   Inl e \<Rightarrow> (Inl e, s, [AnswerQuery])
                 | Inr tbl \<Rightarrow>
                     let fs' = filter (\<lambda>f. r_id f \<noteq> recipe_id) fs;
                         s1 = s\<lparr>table := tbl, ud := (ud s)\<lparr>favorites := Some fs'\<rparr>\<rparr>
                     in if fs' = [] then
                          (Inr ReturnEND, s1, [AnswerQuery, ReplyText NoFavoritesLeft])
                        else
                          (let s2 = (if current_index \<ge> int (length fs')
                                     then s1\<lparr>ud := (ud s1)\<lparr>current_favorite_index :=
                                                             Some (int (length fs') - 1)\<rparr>\<rparr>
                                     else s1)
                           in then_show [AnswerQuery]
                                (show_favorite_recipe CallbackUpdate user_id new_id s2))))
         else if action = ''fav_done'' then
           (Inr ReturnEND, s, [AnswerQuery, EditReplyMarkup None])
         else then_show [AnswerQuery] (show_favorite_recipe CallbackUpdate user_id new_id s))"

text \<open>
  The sessions of the state machine. A search session is Active from a \<open>process_search\<close>
  that returns \<open>SEARCH\<close>, through every \<open>handle_recipe_navigation\<close> that does not return
  \<open>END\<close>; a favorites session from a \<open>show_favorites\<close> that returns \<open>FAVORITES\<close>, through
  every \<open>handle_favorites_navigation\<close> that does not return \<open>END\<close>.
\<close>

inductive search_active :: "(ustring \<Rightarrow> ustring) \<Rightarrow> int \<Rightarrow> bot \<Rightarrow> bool"
  for lower :: "ustring \<Rightarrow> ustring" and user_id :: int where
  search_start:
    "process_search lower ingredients user_id env_key remote new_id s0
       = (Inr ReturnSEARCH, s, fx)
     \<Longrightarrow> search_active lower user_id s"
| search_nav:
    "search_active lower user_id s
     \<Longrightarrow> handle_recipe_navigation action user_id new_id s = (out, s', fx)
     \<Longrightarrow> out \<noteq> Inr ReturnEND
     \<Longrightarrow> search_active lower user_id s'"

inductive favorites_active :: "int \<Rightarrow> bot \<Rightarrow> bool" for user_id :: int where
  favorites_start:
    "show_favorites user_id new_id s0 = (Inr ReturnFAVORITES, s, fx)
     \<Longrightarrow> favorites_active user_id s"
| favorites_nav:
    "favorites_active user_id s
     \<Longrightarrow> handle_favorites_navigation action user_id new_id s = (out, s', fx)
     \<Longrightarrow> out \<noteq> Inr ReturnEND
     \<Longrightarrow> favorites_active user_id s'"

text \<open>
  The invariant of a browsing session: the list is not empty and the cursor is an index
  into it.
\<close>

definition session_inv :: "recipe list \<Rightarrow> int \<Rightarrow> bool" where
  "session_inv items cursor = (items \<noteq> [] \<and> 0 \<le> cursor \<and> cursor < int (length items))"

text \<open>
  Concrete states, for evaluating the handlers. \<open>initial_bot\<close>: an empty table and an
  empty \<open>user_data\<close>. \<open>scenario_search\<close>: the state after user 7 has sent
  \<open>text_eggs_milk\<close> (the Russian for "eggs, milk") with no API key set, and the first
  recipe was sent as message 100. \<open>scenario_favorites\<close>: user 7 has then pressed the
  favorite button of the first recipe and opened the favorites (message 102).
  \<open>scenario_remote_at i\<close>: user 7 has searched with an API key set, the remote service
  has answered with \<open>omelette\<close>, \<open>broth\<close> and \<open>stew\<close>, and the cursor is at \<open>i\<close>.
\<close>

definition empty_user_data :: user_data where
  "empty_user_data =
     \<lparr>recipes = None, current_recipe_index = None, favorites = None,
      current_favorite_index = None, last_photo_message_id = None,
      last_fav_photo_message_id = None\<rparr>"

definition initial_bot :: bot where
  "initial_bot = \<lparr>table = [], ud = empty_user_data\<rparr>"

definition text_eggs_milk :: ustring where
  "text_eggs_milk = [1103, 1081, 1094, 1072, 44, 32, 1084, 1086, 1083, 1086, 1082, 1086]"

definition scenario_search :: bot where
  "scenario_search =
     \<lparr>table = [],
      ud = empty_user_data\<lparr>recipes := Some basic_recipes, current_recipe_index := Some 0,
                            last_photo_message_id := Some 100\<rparr>\<rparr>"

definition scenario_favorites :: bot where
  "scenario_favorites =
     \<lparr>table = insert_favorite omelette 7 [],
      ud = empty_user_data\<lparr>recipes := Some basic_recipes, current_recipe_index := Some 0,
                            favorites := Some [omelette], current_favorite_index := Some 0,
                            last_photo_message_id := Some 100,
                            last_fav_photo_message_id := Some 102\<rparr>\<rparr>"

definition scenario_remote_at :: "int \<Rightarrow> bot" where
  "scenario_remote_at i =
     \<lparr>table = [],
      ud = empty_user_data\<lparr>recipes := Some [omelette, broth, stew],
                            current_recipe_index := Some i,
                            last_photo_message_id := Some 100\<rparr>\<rparr>"

section \<open>Properties of the recipe source adapter\<close>

lemma get_local_recipes_cases:
  "get_local_recipes lower s =
     (if str_in tok_eggs (lower s) \<and> str_in tok_milk (lower s)
      then basic_recipes else [])"
  by (simp add: get_local_recipes_def)

lemma basic_recipes_counts:
  "length basic_recipes = 2 \<and>
   (\<forall>r \<in> set basic_recipes. 0 \<le> r_usedIngredientCount r \<and> 0 \<le> r_missedIngredientCount r)"
  by (simp add: basic_recipes_def omelette_def pancakes_def)

lemma local_eggs_milk: "get_local_recipes lower_basic text_eggs_milk = basic_recipes"
  by (simp add: get_local_recipes_def text_eggs_milk_def lower_basic_def lower_cp_def
      tok_eggs_def tok_milk_def basic_recipes_def)

lemma local_english: "get_local_recipes lower_basic (ustr ''eggs, milk'') = []"
  by (simp add: get_local_recipes_def ustr_def lower_basic_def lower_cp_def
      tok_eggs_def tok_milk_def)

lemma basic_text_inputs:
  "basic_text text_eggs_milk" "basic_text (ustr ''eggs'')" "basic_text (ustr ''milk'')"
  "basic_text (ustr ''Eggs'' @ replicate 2 32 @ ustr ''Milk'')"
  "basic_text [1071, 1049, 1062, 1040, 44, 32, 1052, 1054, 1051, 1054, 1050, 1054]"
  "basic_text [32, 69, 103, 103, 115, 9, 109, 105, 108, 107, 10]"
  by (simp_all add: basic_text_def text_eggs_milk_def ustr_def list_all_iff)

lemma call_without_key:
  "call_spoonacular_api lower None remote s = []
   \<and> call_spoonacular_api lower (Some []) remote s = []"
  by (simp add: call_spoonacular_api_def)

text \<open>
  C1 (as amended). With no API key (unset, or set to the empty string) \<open>search_recipes\<close>
  returns exactly the local result: the two-entry table when the lower-cased text contains
  both Russian tokens \<open>tok_eggs\<close> and \<open>tok_milk\<close>, the empty list otherwise. This holds
  whatever \<open>str.lower\<close> does.
\<close>

theorem search_recipes_without_key:
  "search_recipes lower None remote s = get_local_recipes lower s
   \<and> search_recipes lower (Some []) remote s = get_local_recipes lower s
   \<and> get_local_recipes lower s =
       (if str_in tok_eggs (lower s) \<and> str_in tok_milk (lower s)
        then basic_recipes else [])
   \<and> length basic_recipes = 2"
  using call_without_key [of lower remote s] basic_recipes_counts
  by (simp add: search_recipes_def get_local_recipes_cases)

text \<open>The Russian text "eggs, milk", also in capitals, gives the two-entry table.\<close>

theorem search_recipes_without_key_witness:
  "search_recipes lower_basic None remote_down text_eggs_milk = basic_recipes
   \<and> search_recipes lower_basic None remote_down
        [1071, 1049, 1062, 1040, 44, 32, 1052, 1054, 1051, 1054, 1050, 1054] = basic_recipes"
  using search_recipes_without_key [of lower_basic remote_down text_eggs_milk]
    search_recipes_without_key [of lower_basic remote_down
      "[1071, 1049, 1062, 1040, 44, 32, 1052, 1054, 1051, 1054, 1050, 1054]"]
  by (simp add: text_eggs_milk_def lower_basic_def lower_cp_def tok_eggs_def tok_milk_def)

text \<open>
  C1 as stated fails: the English text "eggs, milk" with no API key gives the empty list,
  not the two-entry table.
\<close>

theorem search_recipes_english_counterexample:
  "basic_text (ustr ''eggs, milk'')
   \<and> search_recipes lower_basic None remote_down (ustr ''eggs, milk'') = []
   \<and> search_recipes lower_basic None remote_down (ustr ''eggs, milk'') \<noteq> basic_recipes"
proof -
  have "basic_text (ustr ''eggs, milk'')"
    by (simp add: basic_text_def ustr_def)
  then show ?thesis
    by (simp add: search_recipes_def call_spoonacular_api_def local_english basic_recipes_def)
qed

text \<open>
  C2 (as amended). With an API key set, when the request raises, or the status is one of
  400..599 (402 among them), or the body is not JSON, \<open>_call_spoonacular_api\<close> returns the
  empty list and \<open>search_recipes\<close> returns the local result.
\<close>

theorem api_failure_falls_back:
  assumes "k \<noteq> []"
    and "remote (spoonacular_params lower k s) = RequestFailed
         \<or> (\<exists>st body. remote (spoonacular_params lower k s) = Response st body
              \<and> ((400 \<le> st \<and> st < 600) \<or> body = NotJson))"
  shows "call_spoonacular_api lower (Some k) remote s = []
         \<and> search_recipes lower (Some k) remote s = get_local_recipes lower s"
  using assms
  by (auto simp: search_recipes_def call_spoonacular_api_def api_request_def)

text \<open>A status 402 for the Russian text "eggs, milk": the local table is returned.\<close>

theorem api_failure_falls_back_witness:
  "call_spoonacular_api lower_basic (Some (ustr ''key''))
     (remote_answers 402 (JsonRecipes basic_recipes)) text_eggs_milk = []
   \<and> search_recipes lower_basic (Some (ustr ''key''))
       (remote_answers 402 (JsonRecipes basic_recipes)) text_eggs_milk = basic_recipes"
  using api_failure_falls_back [of "ustr ''key''"
      "remote_answers 402 (JsonRecipes basic_recipes)" lower_basic text_eggs_milk]
  by (simp add: ustr_def local_eggs_milk remote_answers_def)

text \<open>
  C2 as stated fails: a status that is not 2xx and not 4xx/5xx (here 300) with a JSON body
  is not an error for \<open>raise_for_status\<close>, and its list is returned.
\<close>

theorem api_status_300_counterexample:
  "call_spoonacular_api lower_basic (Some (ustr ''key''))
     (remote_answers 300 (JsonRecipes basic_recipes)) text_eggs_milk = basic_recipes
   \<and> basic_recipes \<noteq> []"
  by (simp add: call_spoonacular_api_def api_request_def ustr_def basic_recipes_def
      remote_answers_def)

text \<open>Lemmas on the text sent.\<close>

lemma dropWhile_hd: "xs \<noteq> [] \<Longrightarrow> \<not> P (hd xs) \<Longrightarrow> dropWhile P xs = xs"
  by (cases xs) auto

lemma str_strip_words:
  assumes "a \<noteq> []" "b \<noteq> []" "\<not> isspace (hd a)" "\<not> isspace (last b)"
  shows "str_strip (a @ m @ b) = a @ m @ b"
proof -
  have 1: "dropWhile isspace (a @ m @ b) = a @ m @ b"
    using assms by (intro dropWhile_hd) auto
  have 2: "dropWhile isspace (rev (a @ m @ b)) = rev (a @ m @ b)"
    using assms by (intro dropWhile_hd) (auto simp: hd_rev)
  show ?thesis by (simp only: str_strip_def 1 2 rev_rev_ident)
qed

lemma ingredients_cleaned_eq:
  "p_ingredients (spoonacular_params lower k s) = lower (str_replace_char 32 43 (str_strip s))"
  by (simp add: spoonacular_params_def)

text \<open>
  C7 (as amended). The text sent is \<open>str.lower\<close> of the input with the white space at both
  ends removed and each space character (U+0020) replaced by one \<open>+\<close>: the replacement
  keeps the length and leaves no space, and \<open>n\<close> spaces between two words become \<open>n\<close> plus
  signs. This holds whatever \<open>str.lower\<close> does.
\<close>

theorem ingredients_sent_one_for_one:
  "p_ingredients (spoonacular_params lower k s) = lower (str_replace_char 32 43 (str_strip s))
   \<and> length (str_replace_char 32 43 (str_strip s)) = length (str_strip s)
   \<and> 32 \<notin> set (str_replace_char 32 43 (str_strip s))
   \<and> (a \<noteq> [] \<and> b \<noteq> [] \<and> (\<forall>c \<in> set (a @ b). \<not> isspace c)
      \<longrightarrow> p_ingredients (spoonacular_params lower k (a @ replicate n 32 @ b))
          = lower (a @ replicate n 43 @ b))
   \<and> (32 \<notin> set (str_strip s)
      \<longrightarrow> p_ingredients (spoonacular_params lower k s) = lower (str_strip s))"
proof (intro conjI impI)
  show "p_ingredients (spoonacular_params lower k s)
        = lower (str_replace_char 32 43 (str_strip s))"
    by (rule ingredients_cleaned_eq)
  show "length (str_replace_char 32 43 (str_strip s)) = length (str_strip s)"
    by (simp add: str_replace_char_def)
  show "32 \<notin> set (str_replace_char 32 43 (str_strip s))"
    by (auto simp: str_replace_char_def)
next
  assume h: "a \<noteq> [] \<and> b \<noteq> [] \<and> (\<forall>c \<in> set (a @ b). \<not> isspace c)"
  then have strip: "str_strip (a @ replicate n 32 @ b) = a @ replicate n 32 @ b"
    by (intro str_strip_words) auto
  have sp: "isspace 32"
    by (simp add: isspace_def)
  have nospace: "c \<noteq> 32" if "c \<in> set a \<or> c \<in> set b" for c
    using h that sp by (metis Un_iff set_append)
  have wa: "map (\<lambda>c. if c = 32 then 43 else c) a = a"
    by (rule map_idI) (simp add: nospace)
  have wb: "map (\<lambda>c. if c = 32 then 43 else c) b = b"
    by (rule map_idI) (simp add: nospace)
  have "str_replace_char 32 43 (a @ replicate n 32 @ b) = a @ replicate n 43 @ b"
    by (simp add: str_replace_char_def wa wb)
  then show "p_ingredients (spoonacular_params lower k (a @ replicate n 32 @ b))
          = lower (a @ replicate n 43 @ b)"
    by (simp add: ingredients_cleaned_eq strip)
next
  assume "32 \<notin> set (str_strip s)"
  then have "map (\<lambda>c. if c = 32 then 43 else c) (str_strip s) = str_strip s"
    by (intro map_idI) auto
  then show "p_ingredients (spoonacular_params lower k s) = lower (str_strip s)"
    by (simp add: ingredients_cleaned_eq str_replace_char_def)
qed

text \<open>
  Two spaces between two English words are sent as two plus signs, and a tab between two
  words as it is.
\<close>

theorem ingredients_sent_one_for_one_witness:
  "p_ingredients (spoonacular_params lower_basic (ustr ''key'')
       (ustr ''Eggs'' @ replicate 2 32 @ ustr ''Milk''))
     = ustr ''eggs'' @ replicate 2 43 @ ustr ''milk''
   \<and> p_ingredients (spoonacular_params lower_basic (ustr ''key'')
        [32, 69, 103, 103, 115, 9, 109, 105, 108, 107, 10])
       = [101, 103, 103, 115, 9, 109, 105, 108, 107]"
proof -
  have 1: "p_ingredients (spoonacular_params lower_basic (ustr ''key'')
       (ustr ''Eggs'' @ replicate 2 32 @ ustr ''Milk''))
     = ustr ''eggs'' @ replicate 2 43 @ ustr ''milk''"
    using ingredients_sent_one_for_one
      [of lower_basic "ustr ''key''" "[]" "ustr ''Eggs''" "ustr ''Milk''" 2]
    by (simp add: ustr_def isspace_def lower_basic_def lower_cp_def)
  have st: "str_strip [32, 69, 103, 103, 115, 9, 109, 105, 108, 107, 10]
            = [69, 103, 103, 115, 9, 109, 105, 108, 107]"
    by (simp add: str_strip_def isspace_def)
  have 2: "p_ingredients (spoonacular_params lower_basic (ustr ''key'')
        [32, 69, 103, 103, 115, 9, 109, 105, 108, 107, 10])
       = [101, 103, 103, 115, 9, 109, 105, 108, 107]"
    using ingredients_sent_one_for_one
      [of lower_basic "ustr ''key''" "[32, 69, 103, 103, 115, 9, 109, 105, 108, 107, 10]",
       THEN conjunct2, THEN conjunct2, THEN conjunct2, THEN conjunct2]
    by (simp add: st lower_basic_def lower_cp_def)
  show ?thesis using 1 2 by simp
qed

text \<open>
  C7 as stated fails: two spaces between two words are sent as two join tokens, and a tab
  between two words is sent as it is.
\<close>

theorem ingredients_run_counterexample:
  "basic_text (ustr ''eggs  milk'') \<and> basic_text [101, 103, 103, 115, 9, 109, 105, 108, 107]
   \<and> p_ingredients (spoonacular_params lower_basic (ustr ''key'') (ustr ''eggs  milk''))
     = ustr ''eggs++milk''
   \<and> p_ingredients (spoonacular_params lower_basic (ustr ''key'') (ustr ''eggs  milk''))
       \<noteq> ustr ''eggs+milk''
   \<and> p_ingredients (spoonacular_params lower_basic (ustr ''key'')
        [101, 103, 103, 115, 9, 109, 105, 108, 107])
       = [101, 103, 103, 115, 9, 109, 105, 108, 107]"
  by (simp add: spoonacular_params_def ustr_def lower_basic_def lower_cp_def
      str_replace_char_def str_strip_def isspace_def basic_text_def)

text \<open>
  C9 (as amended). With an API key set and a response that is no error, the request asks
  for 10 recipes and \<open>search_recipes\<close> returns the list of the response as it is (the local
  result when that list is empty); so the result has at most 10 items with counts that are
  not negative whenever the list of the response has.
\<close>

theorem search_recipes_returns_remote_list:
  assumes "k \<noteq> []"
    and "remote (spoonacular_params lower k s) = Response st (JsonRecipes rs)"
    and "\<not> (400 \<le> st \<and> st < 600)"
  shows "p_number (spoonacular_params lower k s) = 10
         \<and> search_recipes lower (Some k) remote s
             = (if rs \<noteq> [] then rs else get_local_recipes lower s)
         \<and> (length rs \<le> 10
              \<and> (\<forall>r \<in> set rs. 0 \<le> r_usedIngredientCount r \<and> 0 \<le> r_missedIngredientCount r)
            \<longrightarrow> length (search_recipes lower (Some k) remote s) \<le> 10
                \<and> (\<forall>r \<in> set (search_recipes lower (Some k) remote s).
                      0 \<le> r_usedIngredientCount r \<and> 0 \<le> r_missedIngredientCount r))"
proof -
  have 1: "p_number (spoonacular_params lower k s) = 10"
    by (simp add: spoonacular_params_def)
  have "call_spoonacular_api lower (Some k) remote s = rs"
    using assms by (auto simp: call_spoonacular_api_def api_request_def)
  then have 2: "search_recipes lower (Some k) remote s
                  = (if rs \<noteq> [] then rs else get_local_recipes lower s)"
    by (simp add: search_recipes_def)
  have 3: "length (get_local_recipes lower s) \<le> 10
           \<and> (\<forall>r \<in> set (get_local_recipes lower s).
                 0 \<le> r_usedIngredientCount r \<and> 0 \<le> r_missedIngredientCount r)"
    using basic_recipes_counts by (simp add: get_local_recipes_cases)
  show ?thesis using 1 2 3 by auto
qed

text \<open>A response with one recipe is returned as it is.\<close>

theorem search_recipes_returns_remote_list_witness:
  "search_recipes lower_basic (Some (ustr ''key'')) (remote_answers 200 (JsonRecipes [pancakes]))
     (ustr ''milk'') = [pancakes]
   \<and> length (search_recipes lower_basic (Some (ustr ''key''))
       (remote_answers 200 (JsonRecipes [pancakes])) (ustr ''milk'')) \<le> 10"
  using search_recipes_returns_remote_list [of "ustr ''key''"
      "remote_answers 200 (JsonRecipes [pancakes])" lower_basic "ustr ''milk''" 200 "[pancakes]"]
  by (simp add: ustr_def pancakes_def remote_answers_def)

text \<open>
  C9 as stated fails: the code neither cuts the list nor checks the counts. A response of
  11 recipes with a negative count is returned as it is.
\<close>

theorem search_recipes_cap_counterexample:
  "length (search_recipes lower_basic (Some (ustr ''key''))
       (remote_answers 200 (JsonRecipes (replicate 11 soup))) (ustr ''eggs'')) = 11
   \<and> r_usedIngredientCount (hd (search_recipes lower_basic (Some (ustr ''key''))
       (remote_answers 200 (JsonRecipes (replicate 11 soup))) (ustr ''eggs''))) = - 1"
  by (simp add: search_recipes_def call_spoonacular_api_def api_request_def ustr_def
      remote_answers_def soup_def)

text \<open>
  C10. The local table is all or nothing: \<open>get_local_recipes\<close> returns the empty list or
  both recipes, never one of the two. This holds whatever \<open>str.lower\<close> does.
\<close>

theorem local_table_all_or_nothing:
  "get_local_recipes lower s = [] \<or> get_local_recipes lower s = basic_recipes"
  by (simp add: get_local_recipes_cases)

text \<open>Both outcomes occur: the English text gives nothing, the Russian text both.\<close>

theorem local_table_all_or_nothing_witness:
  "get_local_recipes lower_basic (ustr ''eggs, milk'') = []
   \<and> get_local_recipes lower_basic text_eggs_milk = basic_recipes
   \<and> length (get_local_recipes lower_basic text_eggs_milk) \<noteq> 1"
  using local_table_all_or_nothing [of lower_basic "ustr ''eggs, milk''"]
    local_table_all_or_nothing [of lower_basic text_eggs_milk]
  by (simp add: local_english local_eggs_milk basic_recipes_def)

section \<open>Properties of the favorites store\<close>

lemma sqlite_int_small: "sqlite_int 1" "sqlite_int 2" "sqlite_int 6" "sqlite_int 7"
  "\<not> sqlite_int 9223372036854775808"
  by (simp_all add: sqlite_int_def)

lemma first_error_two:
  "first_error [bind_int a, bind_int b]
   = (if sqlite_int a \<and> sqlite_int b then None else Some OverflowError)"
  by (simp add: bind_int_def)

lemma is_favorite_eq:
  "is_favorite rid u tbl
   = (if sqlite_int rid \<and> sqlite_int u then Inr (exists_favorite rid u tbl)
      else Inl OverflowError)"
  by (simp add: is_favorite_def first_error_two)

lemma remove_favorite_eq:
  "remove_favorite rid u tbl
   = (if sqlite_int rid \<and> sqlite_int u then Inr (delete_favorite rid u tbl)
      else Inl OverflowError)"
  by (simp add: remove_favorite_def first_error_two)

lemma get_favorites_eq:
  "get_favorites u tbl
   = (if sqlite_int u then Inr (select_favorites u tbl) else Inl OverflowError)"
  by (simp add: get_favorites_def bind_int_def)

lemma first_error_None_iff: "first_error bs = None \<longleftrightarrow> (\<forall>b \<in> set bs. b = None)"
  by (induction bs rule: first_error.induct) simp_all

lemma bind_int_None: "bind_int i = None \<longleftrightarrow> sqlite_int i"
  by (simp add: bind_int_def)

lemma bind_favorite_None_iff:
  "bind_favorite r u = None \<longleftrightarrow>
     sqlite_int (r_id r) \<and> sqlite_text (r_title r) \<and> bind_text (r_image r) = None
     \<and> sqlite_int (r_usedIngredientCount r) \<and> sqlite_int (r_missedIngredientCount r)
     \<and> sqlite_int u"
  by (simp add: bind_favorite_def first_error_None_iff bind_int_None)
     (simp add: bind_text_def)

lemma bind_favorite_ids:
  "bind_favorite r u = None \<Longrightarrow> sqlite_int (r_id r) \<and> sqlite_int u"
  by (simp add: bind_favorite_None_iff)

lemma exists_insert: "exists_favorite (r_id r) u (insert_favorite r u tbl)"
  by (simp add: exists_favorite_def insert_favorite_def)

lemma exists_delete: "\<not> exists_favorite rid u (delete_favorite rid u tbl)"
  by (simp add: exists_favorite_def delete_favorite_def)

lemma delete_noop: "\<not> exists_favorite rid u tbl \<Longrightarrow> delete_favorite rid u tbl = tbl"
  by (simp add: exists_favorite_def delete_favorite_def filter_empty_conv filter_id_conv)

text \<open>
  C3 (as amended). From any table: when the six values of \<open>add_favorite\<close> can be bound,
  it inserts the row and \<open>is_favorite\<close> then returns true; when one cannot, it raises and
  nothing is inserted. When the recipe id and the user id fit the 64 bits of an SQLite
  INTEGER, \<open>remove_favorite\<close> deletes exactly the rows of the pair, \<open>is_favorite\<close> then
  returns false, and nothing changes when there was no such row; otherwise
  \<open>remove_favorite\<close> and \<open>is_favorite\<close> raise \<open>OverflowError\<close>.
\<close>

theorem favorite_round_trip:
  "(bind_favorite r u = None
      \<longrightarrow> add_favorite r u tbl = Inr (insert_favorite r u tbl)
          \<and> is_favorite (r_id r) u (insert_favorite r u tbl) = Inr True)
   \<and> (bind_favorite r u \<noteq> None \<longrightarrow> (\<exists>e. add_favorite r u tbl = Inl e))
   \<and> (sqlite_int rid \<and> sqlite_int u
      \<longrightarrow> remove_favorite rid u tbl = Inr (delete_favorite rid u tbl)
          \<and> delete_favorite rid u tbl
              = filter (\<lambda>row. \<not> (f_recipe_id row = rid \<and> f_user_id row = u)) tbl
          \<and> is_favorite rid u (delete_favorite rid u tbl) = Inr False
          \<and> (is_favorite rid u tbl = Inr False \<longrightarrow> remove_favorite rid u tbl = Inr tbl))
   \<and> (\<not> (sqlite_int rid \<and> sqlite_int u)
      \<longrightarrow> remove_favorite rid u tbl = Inl OverflowError
          \<and> is_favorite rid u tbl = Inl OverflowError)"
proof (intro conjI impI)
  assume b: "bind_favorite r u = None"
  then show "add_favorite r u tbl = Inr (insert_favorite r u tbl)"
    by (simp add: add_favorite_def)
  from bind_favorite_ids [OF b]
  show "is_favorite (r_id r) u (insert_favorite r u tbl) = Inr True"
    by (simp add: is_favorite_eq exists_insert)
next
  assume "bind_favorite r u \<noteq> None"
  then show "\<exists>e. add_favorite r u tbl = Inl e"
    by (auto simp: add_favorite_def)
next
  assume i: "sqlite_int rid \<and> sqlite_int u"
  then show "remove_favorite rid u tbl = Inr (delete_favorite rid u tbl)"
    by (simp add: remove_favorite_eq)
  show "delete_favorite rid u tbl
        = filter (\<lambda>row. \<not> (f_recipe_id row = rid \<and> f_user_id row = u)) tbl"
    by (simp add: delete_favorite_def)
  from i show "is_favorite rid u (delete_favorite rid u tbl) = Inr False"
    by (simp add: is_favorite_eq exists_delete)
  assume "is_favorite rid u tbl = Inr False"
  with i show "remove_favorite rid u tbl = Inr tbl"
    by (simp add: is_favorite_eq remove_favorite_eq delete_noop)
next
  assume "\<not> (sqlite_int rid \<and> sqlite_int u)"
  then show "remove_favorite rid u tbl = Inl OverflowError"
    and "is_favorite rid u tbl = Inl OverflowError"
    by (simp_all add: is_favorite_eq remove_favorite_eq)
qed

lemma omelette_fields:
  "r_id omelette = 1" "image_of omelette \<noteq> None" "bind_favorite omelette 7 = None"
  by (simp_all add: omelette_def image_of_def ustr_def bind_favorite_def bind_int_def
      bind_text_def sqlite_int_def sqlite_text_def)

text \<open>The round trip for the first recipe of the local table and user 7.\<close>

theorem favorite_round_trip_witness:
  "add_favorite omelette 7 [] = Inr (insert_favorite omelette 7 [])
   \<and> is_favorite 1 7 (insert_favorite omelette 7 []) = Inr True
   \<and> remove_favorite 1 7 (insert_favorite omelette 7 []) = Inr []
   \<and> is_favorite 1 7 [] = Inr False
   \<and> remove_favorite 2 7 (insert_favorite omelette 7 []) = Inr (insert_favorite omelette 7 [])
   \<and> remove_favorite 9223372036854775808 7 [] = Inl OverflowError"
  using favorite_round_trip [of omelette 7 "[]" 1]
    favorite_round_trip [of omelette 7 "insert_favorite omelette 7 []" 1]
    favorite_round_trip [of omelette 7 "insert_favorite omelette 7 []" 2]
    favorite_round_trip [of omelette 7 "[]" 9223372036854775808]
  by (simp add: omelette_fields sqlite_int_small delete_favorite_def insert_favorite_def
      is_favorite_eq exists_favorite_def)

text \<open>
  C3 as stated fails: for a recipe with the id \<open>2^63\<close> the three functions raise
  \<open>OverflowError\<close>; \<open>is_favorite\<close> does not return true after \<open>add_favorite\<close>, nor false
  after \<open>remove_favorite\<close>.
\<close>

theorem favorite_overflow_counterexample:
  "add_favorite stew 7 [] = Inl OverflowError
   \<and> is_favorite (r_id stew) 7 [] = Inl OverflowError
   \<and> remove_favorite (r_id stew) 7 [] = Inl OverflowError"
  by (simp add: add_favorite_def bind_favorite_def bind_int_def is_favorite_eq
      remove_favorite_eq stew_def sqlite_int_def)

section \<open>Properties of the browsing sessions\<close>

text \<open>What \<open>show_recipe\<close> and \<open>show_favorite_recipe\<close> leave unchanged.\<close>

lemma show_recipe_state:
  "fst (snd (show_recipe kind u mid s)) = s
   \<or> fst (snd (show_recipe kind u mid s))
       = s\<lparr>ud := (ud s)\<lparr>last_photo_message_id := Some mid\<rparr>\<rparr>"
  by (simp add: show_recipe_def Let_def split: update_kind.split option.split sum.split)

lemma show_recipe_frame:
  assumes "show_recipe kind u mid s = (out, s', fx)"
  shows "table s' = table s \<and> get_recipes s' = get_recipes s
         \<and> get_recipe_index s' = get_recipe_index s
         \<and> get_favs s' = get_favs s \<and> get_favorite_index s' = get_favorite_index s
         \<and> favorites (ud s') = favorites (ud s)"
proof -
  have "s' = fst (snd (show_recipe kind u mid s))"
    by (simp add: assms)
  then have "s' = s \<or> s' = s\<lparr>ud := (ud s)\<lparr>last_photo_message_id := Some mid\<rparr>\<rparr>"
    using show_recipe_state [of kind u mid s] by simp
  then show ?thesis
    by (auto simp: get_recipes_def get_recipe_index_def get_favs_def get_favorite_index_def)
qed

lemma py_index_in_range:
  "0 \<le> i \<Longrightarrow> i < int (length xs) \<Longrightarrow> py_index xs i = Some (xs ! nat i)"
  by (simp add: py_index_def)

lemma show_recipe_out:
  assumes "session_inv (get_recipes s) (get_recipe_index s)"
  shows "fst (show_recipe kind u mid s)
         = (if sqlite_int (r_id (get_recipes s ! nat (get_recipe_index s))) \<and> sqlite_int u
            then Inr ReturnNone else Inl OverflowError)"
  using assms
  by (simp add: show_recipe_def Let_def session_inv_def py_index_in_range is_favorite_eq
      split: option.split)

lemma show_favorite_recipe_state:
  "fst (snd (show_favorite_recipe kind u mid s)) = s
   \<or> fst (snd (show_favorite_recipe kind u mid s))
       = s\<lparr>ud := (ud s)\<lparr>last_fav_photo_message_id := Some mid\<rparr>\<rparr>"
  by (simp add: show_favorite_recipe_def Let_def split: update_kind.split option.split)

lemma show_favorite_recipe_frame:
  assumes "show_favorite_recipe kind u mid s = (out, s', fx)"
  shows "table s' = table s \<and> get_recipes s' = get_recipes s
         \<and> get_recipe_index s' = get_recipe_index s
         \<and> get_favs s' = get_favs s \<and> get_favorite_index s' = get_favorite_index s
         \<and> favorites (ud s') = favorites (ud s)"
proof -
  have "s' = fst (snd (show_favorite_recipe kind u mid s))"
    by (simp add: assms)
  then have "s' = s \<or> s' = s\<lparr>ud := (ud s)\<lparr>last_fav_photo_message_id := Some mid\<rparr>\<rparr>"
    using show_favorite_recipe_state [of kind u mid s] by simp
  then show ?thesis
    by (auto simp: get_recipes_def get_recipe_index_def get_favs_def get_favorite_index_def)
qed

lemma show_favorite_recipe_out:
  assumes "session_inv (get_favs s) (get_favorite_index s)"
  shows "fst (show_favorite_recipe kind u mid s) = Inr ReturnNone"
  using assms
  by (simp add: show_favorite_recipe_def Let_def session_inv_def py_index_in_range
      split: option.split)

lemma then_show_eq:
  assumes "then_show pre r = (out, s', fx)"
  shows "\<exists>out0 fx0. r = (out0, s', fx0) \<and> fx = pre @ fx0
          \<and> out = (case out0 of Inl e \<Rightarrow> Inl e | Inr v \<Rightarrow> Inr ReturnNone)"
  using assms by (cases r) (auto simp: then_show_def)

lemma set_recipe_index:
  "get_recipes (s\<lparr>ud := (ud s)\<lparr>current_recipe_index := Some i\<rparr>\<rparr>) = get_recipes s"
  "get_recipe_index (s\<lparr>ud := (ud s)\<lparr>current_recipe_index := Some i\<rparr>\<rparr>) = i"
  "table (s\<lparr>ud := (ud s)\<lparr>current_recipe_index := Some i\<rparr>\<rparr>) = table s"
  by (simp_all add: get_recipes_def get_recipe_index_def)

lemma set_favorite_index:
  "get_favs (s\<lparr>ud := (ud s)\<lparr>current_favorite_index := Some i\<rparr>\<rparr>) = get_favs s"
  "get_favorite_index (s\<lparr>ud := (ud s)\<lparr>current_favorite_index := Some i\<rparr>\<rparr>) = i"
  "table (s\<lparr>ud := (ud s)\<lparr>current_favorite_index := Some i\<rparr>\<rparr>) = table s"
  "favorites (ud (s\<lparr>ud := (ud s)\<lparr>current_favorite_index := Some i\<rparr>\<rparr>)) = favorites (ud s)"
  by (simp_all add: get_favs_def get_favorite_index_def)

lemma via_show_recipe:
  assumes "then_show pre (show_recipe kind u mid s1) = (out, s', fx)"
  shows "table s' = table s1 \<and> get_recipes s' = get_recipes s1
         \<and> get_recipe_index s' = get_recipe_index s1
         \<and> out \<noteq> Inr ReturnEND
         \<and> (session_inv (get_recipes s1) (get_recipe_index s1) \<longrightarrow>
              out = (if sqlite_int (r_id (get_recipes s1 ! nat (get_recipe_index s1)))
                        \<and> sqlite_int u
                     then Inr ReturnNone else Inl OverflowError))"
proof -
  from then_show_eq [OF assms] obtain out0 fx0 where
    r: "show_recipe kind u mid s1 = (out0, s', fx0)"
    and o: "out = (case out0 of Inl e \<Rightarrow> Inl e | Inr v \<Rightarrow> Inr ReturnNone)"
    by blast
  have ne: "out \<noteq> Inr ReturnEND"
    using o by (cases out0) simp_all
  have "out0 = fst (show_recipe kind u mid s1)"
    by (simp add: r)
  then have "session_inv (get_recipes s1) (get_recipe_index s1) \<longrightarrow>
              out = (if sqlite_int (r_id (get_recipes s1 ! nat (get_recipe_index s1)))
                        \<and> sqlite_int u
                     then Inr ReturnNone else Inl OverflowError)"
    using o by (simp add: show_recipe_out)
  with show_recipe_frame [OF r] ne show ?thesis by simp
qed

lemma via_show_favorite_recipe:
  assumes "then_show pre (show_favorite_recipe kind u mid s1) = (out, s', fx)"
  shows "table s' = table s1 \<and> get_favs s' = get_favs s1
         \<and> get_favorite_index s' = get_favorite_index s1
         \<and> favorites (ud s') = favorites (ud s1)
         \<and> out \<noteq> Inr ReturnEND
         \<and> (session_inv (get_favs s1) (get_favorite_index s1) \<longrightarrow> out = Inr ReturnNone)"
proof -
  from then_show_eq [OF assms] obtain out0 fx0 where
    r: "show_favorite_recipe kind u mid s1 = (out0, s', fx0)"
    and o: "out = (case out0 of Inl e \<Rightarrow> Inl e | Inr v \<Rightarrow> Inr ReturnNone)"
    by blast
  have ne: "out \<noteq> Inr ReturnEND"
    using o by (cases out0) simp_all
  have "out0 = fst (show_favorite_recipe kind u mid s1)"
    by (simp add: r)
  then have "session_inv (get_favs s1) (get_favorite_index s1) \<longrightarrow> out = Inr ReturnNone"
    using o by (simp add: show_favorite_recipe_out)
  with show_favorite_recipe_frame [OF r] ne show ?thesis by simp
qed

lemma startswith_fav_not_nav:
  "startswith a ''fav_'' \<Longrightarrow> a \<noteq> ''prev'' \<and> a \<noteq> ''next''"
  by auto

lemma startswith_remove_not_nav:
  "startswith a ''remove_'' \<Longrightarrow> a \<noteq> ''fav_prev'' \<and> a \<noteq> ''fav_next''"
  by auto

lemma fav_action_state:
  assumes sw: "startswith a ''fav_''"
  shows "ud (fst (snd (handle_recipe_navigation a u mid s))) = ud s"
  using sw startswith_fav_not_nav [OF sw]
  by (simp add: handle_recipe_navigation_def Let_def split: sum.split option.split)

text \<open>The table and the steps of a session.\<close>

lemma select_delete:
  "select_favorites u (delete_favorite rid u tbl)
   = filter (\<lambda>f. r_id f \<noteq> rid) (select_favorites u tbl)"
  by (induction tbl) (auto simp: select_favorites_def delete_favorite_def row_recipe_def)

lemma table_wf_kept:
  "table_wf []"
  "table_wf tbl \<Longrightarrow> add_favorite r u tbl = Inr tbl' \<Longrightarrow> table_wf tbl'"
  "table_wf tbl \<Longrightarrow> remove_favorite rid u tbl = Inr tbl' \<Longrightarrow> table_wf tbl'"
proof -
  show "table_wf []"
    by (simp add: table_wf_def)
  show "table_wf tbl'" if "table_wf tbl" "add_favorite r u tbl = Inr tbl'"
  proof -
    have b: "bind_favorite r u = None" and t: "tbl' = insert_favorite r u tbl"
      using that(2) by (auto simp: add_favorite_def split: option.splits)
    have "row_wf \<lparr>f_id = next_rowid tbl, f_recipe_id = r_id r, f_title = r_title r,
              f_image = r_image r, f_used_ingredients = r_usedIngredientCount r,
              f_missed_ingredients = r_missedIngredientCount r, f_user_id = u\<rparr>"
      using b by (simp add: row_wf_def bind_favorite_None_iff row_recipe_def)
    then show ?thesis
      using that(1) by (simp add: t table_wf_def insert_favorite_def)
  qed
  show "table_wf tbl'" if "table_wf tbl" "remove_favorite rid u tbl = Inr tbl'"
  proof -
    have "tbl' = delete_favorite rid u tbl"
      using that(2) by (auto simp: remove_favorite_eq split: if_splits)
    then show ?thesis
      using that(1) by (simp add: table_wf_def delete_favorite_def list_all_iff)
  qed
qed

lemma table_wf_no_row:
  assumes "table_wf tbl" and "\<not> sqlite_int rid"
  shows "delete_favorite rid u tbl = tbl
         \<and> filter (\<lambda>f. r_id f \<noteq> rid) (select_favorites u tbl) = select_favorites u tbl"
proof -
  have "sqlite_int (f_recipe_id row)" if "row \<in> set tbl" for row
    using assms(1) that
    by (simp add: table_wf_def list_all_iff row_wf_def bind_favorite_None_iff row_recipe_def)
  then have ne: "f_recipe_id row \<noteq> rid" if "row \<in> set tbl" for row
    using assms(2) that by auto
  have 1: "delete_favorite rid u tbl = tbl"
    using ne by (simp add: delete_favorite_def filter_id_conv)
  have 2: "filter (\<lambda>f. r_id f \<noteq> rid) (select_favorites u tbl) = select_favorites u tbl"
    using ne by (simp add: select_favorites_def filter_id_conv row_recipe_def)
  show ?thesis using 1 2 by simp
qed

lemma recipe_navigation_step:
  assumes h: "handle_recipe_navigation a u mid s = (out, s', fx)"
  shows "get_recipes s' = get_recipes s
         \<and> (session_inv (get_recipes s) (get_recipe_index s)
              \<longrightarrow> session_inv (get_recipes s') (get_recipe_index s'))"
proof -
  let ?i = "get_recipe_index s" and ?rs = "get_recipes s"
  consider (c_prev) "a = ''prev'' \<and> 0 < ?i"
    | (c_next) "\<not> (a = ''prev'' \<and> 0 < ?i)" "a = ''next'' \<and> ?i < int (length ?rs) - 1"
    | (c_fav) "\<not> (a = ''prev'' \<and> 0 < ?i)" "\<not> (a = ''next'' \<and> ?i < int (length ?rs) - 1)"
        "startswith a ''fav_''"
    | (c_done) "\<not> (a = ''prev'' \<and> 0 < ?i)" "\<not> (a = ''next'' \<and> ?i < int (length ?rs) - 1)"
        "\<not> startswith a ''fav_''" "a = ''done''"
    | (c_other) "\<not> (a = ''prev'' \<and> 0 < ?i)" "\<not> (a = ''next'' \<and> ?i < int (length ?rs) - 1)"
        "\<not> startswith a ''fav_''" "a \<noteq> ''done''"
    by blast
  then show ?thesis
  proof cases
    case c_prev
    let ?s1 = "s\<lparr>ud := (ud s)\<lparr>current_recipe_index := Some (?i - 1)\<rparr>\<rparr>"
    have "then_show [AnswerQuery] (show_recipe CallbackUpdate u mid ?s1) = (out, s', fx)"
      using h c_prev by (simp add: handle_recipe_navigation_def Let_def)
    from via_show_recipe [OF this] c_prev show ?thesis
      by (auto simp: set_recipe_index session_inv_def)
  next
    case c_next
    let ?s1 = "s\<lparr>ud := (ud s)\<lparr>current_recipe_index := Some (?i + 1)\<rparr>\<rparr>"
    have "then_show [AnswerQuery] (show_recipe CallbackUpdate u mid ?s1) = (out, s', fx)"
      using h c_next by (simp add: handle_recipe_navigation_def Let_def)
    from via_show_recipe [OF this] c_next show ?thesis
      by (auto simp: set_recipe_index session_inv_def)
  next
    case c_fav
    have "s' = fst (snd (handle_recipe_navigation a u mid s))"
      by (simp add: h)
    then have "ud s' = ud s"
      by (simp add: fav_action_state [OF c_fav(3)])
    then show ?thesis
      by (simp add: get_recipes_def get_recipe_index_def)
  next
    case c_done
    have "s' = s"
      using h c_done by (simp add: handle_recipe_navigation_def Let_def)
    then show ?thesis by simp
  next
    case c_other
    have "then_show [AnswerQuery] (show_recipe CallbackUpdate u mid s) = (out, s', fx)"
      using h c_other by (simp add: handle_recipe_navigation_def Let_def)
    from via_show_recipe [OF this] show ?thesis
      by simp
  qed
qed

lemma favorites_remove_step:
  assumes sw: "startswith a ''remove_''"
    and aid: "action_id a = Inr rid"
    and h: "handle_favorites_navigation a u mid s = (out, s', fx)"
    and inv: "session_inv (get_favs s) (get_favorite_index s)"
    and ok: "sqlite_int rid \<and> sqlite_int u"
  shows "table s' = delete_favorite rid u (table s)
         \<and> favorites (ud s') = Some (filter (\<lambda>f. r_id f \<noteq> rid) (get_favs s))
         \<and> (filter (\<lambda>f. r_id f \<noteq> rid) (get_favs s) = []
              \<longrightarrow> out = Inr ReturnEND \<and> fx = [AnswerQuery, ReplyText NoFavoritesLeft])
         \<and> (filter (\<lambda>f. r_id f \<noteq> rid) (get_favs s) \<noteq> []
              \<longrightarrow> out = Inr ReturnNone
                  \<and> get_favorite_index s'
                      = min (get_favorite_index s)
                          (int (length (filter (\<lambda>f. r_id f \<noteq> rid) (get_favs s))) - 1))"
proof -
  let ?fs' = "filter (\<lambda>f. r_id f \<noteq> rid) (get_favs s)"
  let ?i = "get_favorite_index s"
  let ?s1 = "s\<lparr>table := delete_favorite rid u (table s),
                ud := (ud s)\<lparr>favorites := Some ?fs'\<rparr>\<rparr>"
  have nn: "a \<noteq> ''fav_prev'' \<and> a \<noteq> ''fav_next''"
    using sw by (rule startswith_remove_not_nav)
  have rm: "remove_favorite rid u (table s) = Inr (delete_favorite rid u (table s))"
    using ok by (simp add: remove_favorite_eq)
  show ?thesis
  proof (cases "?fs' = []")
    case True
    have "(out, s', fx) = (Inr ReturnEND, ?s1, [AnswerQuery, ReplyText NoFavoritesLeft])"
      using h nn sw aid rm True by (simp add: handle_favorites_navigation_def Let_def)
    then show ?thesis using True by simp
  next
    case False
    let ?s2 = "if ?i \<ge> int (length ?fs')
               then ?s1\<lparr>ud := (ud ?s1)\<lparr>current_favorite_index := Some (int (length ?fs') - 1)\<rparr>\<rparr>
               else ?s1"
    have eq: "then_show [AnswerQuery] (show_favorite_recipe CallbackUpdate u mid ?s2)
              = (out, s', fx)"
      using h nn sw aid rm False by (simp add: handle_favorites_navigation_def Let_def)
    have t2: "table ?s2 = delete_favorite rid u (table s)"
      by simp
    have f2: "favorites (ud ?s2) = Some ?fs'"
      by simp
    have g2: "get_favs ?s2 = ?fs'"
      by (simp add: get_favs_def)
    have i2: "get_favorite_index ?s2 = min ?i (int (length ?fs') - 1)"
      by (simp add: get_favorite_index_def)
    have pos: "0 < length ?fs'"
      using False by simp
    have inv2: "session_inv (get_favs ?s2) (get_favorite_index ?s2)"
      unfolding g2 i2 using inv False pos by (simp add: session_inv_def)
    from via_show_favorite_recipe [OF eq] inv2 t2 f2 g2 i2 False show ?thesis
      by simp
  qed
qed

lemma favorites_remove_raise:
  assumes sw: "startswith a ''remove_''"
    and aid: "action_id a = Inr rid"
    and h: "handle_favorites_navigation a u mid s = (out, s', fx)"
    and no: "\<not> (sqlite_int rid \<and> sqlite_int u)"
  shows "out = Inl OverflowError \<and> s' = s \<and> fx = [AnswerQuery]"
proof -
  have nn: "a \<noteq> ''fav_prev'' \<and> a \<noteq> ''fav_next''"
    using sw by (rule startswith_remove_not_nav)
  have rm: "remove_favorite rid u (table s) = Inl OverflowError"
    using no by (simp add: remove_favorite_eq)
  have "(out, s', fx) = (Inl OverflowError, s, [AnswerQuery])"
    using h nn sw aid rm by (simp add: handle_favorites_navigation_def Let_def)
  then show ?thesis by simp
qed

lemma favorites_unparsed:
  assumes sw: "startswith a ''remove_''"
    and aid: "action_id a = Inl e"
    and h: "handle_favorites_navigation a u mid s = (out, s', fx)"
  shows "out = Inl e \<and> s' = s \<and> fx = [AnswerQuery]"
proof -
  have nn: "a \<noteq> ''fav_prev'' \<and> a \<noteq> ''fav_next''"
    using sw by (rule startswith_remove_not_nav)
  have "(out, s', fx) = (Inl e, s, [AnswerQuery])"
    using h nn sw aid by (simp add: handle_favorites_navigation_def Let_def)
  then show ?thesis by simp
qed

lemma favorites_navigation_step:
  assumes h: "handle_favorites_navigation a u mid s = (out, s', fx)"
    and inv: "session_inv (get_favs s) (get_favorite_index s)"
    and mirror: "favorites (ud s) = Some (select_favorites u (table s))"
    and active: "out \<noteq> Inr ReturnEND"
  shows "session_inv (get_favs s') (get_favorite_index s')
         \<and> favorites (ud s') = Some (select_favorites u (table s'))"
proof -
  let ?i = "get_favorite_index s" and ?fs = "get_favs s"
  have fs: "select_favorites u (table s) = ?fs"
    using mirror by (simp add: get_favs_def)
  consider (c_prev) "a = ''fav_prev'' \<and> 0 < ?i"
    | (c_next) "\<not> (a = ''fav_prev'' \<and> 0 < ?i)" "a = ''fav_next'' \<and> ?i < int (length ?fs) - 1"
    | (c_remove) "\<not> (a = ''fav_prev'' \<and> 0 < ?i)"
        "\<not> (a = ''fav_next'' \<and> ?i < int (length ?fs) - 1)" "startswith a ''remove_''"
    | (c_done) "\<not> (a = ''fav_prev'' \<and> 0 < ?i)"
        "\<not> (a = ''fav_next'' \<and> ?i < int (length ?fs) - 1)"
        "\<not> startswith a ''remove_''" "a = ''fav_done''"
    | (c_other) "\<not> (a = ''fav_prev'' \<and> 0 < ?i)"
        "\<not> (a = ''fav_next'' \<and> ?i < int (length ?fs) - 1)"
        "\<not> startswith a ''remove_''" "a \<noteq> ''fav_done''"
    by blast
  then show ?thesis
  proof cases
    case c_prev
    let ?s1 = "s\<lparr>ud := (ud s)\<lparr>current_favorite_index := Some (?i - 1)\<rparr>\<rparr>"
    have "then_show [AnswerQuery] (show_favorite_recipe CallbackUpdate u mid ?s1)
          = (out, s', fx)"
      using h c_prev by (simp add: handle_favorites_navigation_def Let_def)
    from via_show_favorite_recipe [OF this] c_prev inv mirror show ?thesis
      by (auto simp: set_favorite_index session_inv_def)
  next
    case c_next
    let ?s1 = "s\<lparr>ud := (ud s)\<lparr>current_favorite_index := Some (?i + 1)\<rparr>\<rparr>"
    have "then_show [AnswerQuery] (show_favorite_recipe CallbackUpdate u mid ?s1)
          = (out, s', fx)"
      using h c_next by (simp add: handle_favorites_navigation_def Let_def)
    from via_show_favorite_recipe [OF this] c_next inv mirror show ?thesis
      by (auto simp: set_favorite_index session_inv_def)
  next
    case c_remove
    show ?thesis
    proof (cases "action_id a")
      case (Inl e)
      from favorites_unparsed [OF c_remove(3) Inl h] have "s' = s"
        by blast
      then show ?thesis using inv mirror by simp
    next
      case (Inr rid)
      show ?thesis
      proof (cases "sqlite_int rid \<and> sqlite_int u")
        case False
        from favorites_remove_raise [OF c_remove(3) Inr h False] have "s' = s"
          by blast
        then show ?thesis using inv mirror by simp
      next
        case True
        let ?fs' = "filter (\<lambda>f. r_id f \<noteq> rid) ?fs"
        note st = favorites_remove_step [OF c_remove(3) Inr h inv True]
        have ne: "?fs' \<noteq> []"
          using st active by auto
        have g: "get_favs s' = ?fs'"
          using st by (simp add: get_favs_def)
        have i: "get_favorite_index s' = min ?i (int (length ?fs') - 1)"
          using st ne by simp
        have pos: "0 < length ?fs'"
          using ne by simp
        have 1: "session_inv (get_favs s') (get_favorite_index s')"
          unfolding g i using inv ne pos by (simp add: session_inv_def)
        have 2: "favorites (ud s') = Some (select_favorites u (table s'))"
          using st by (simp add: select_delete fs)
        show ?thesis using 1 2 by simp
      qed
    qed
  next
    case c_done
    have "out = Inr ReturnEND"
      using h c_done by (simp add: handle_favorites_navigation_def Let_def)
    with active show ?thesis by simp
  next
    case c_other
    have "then_show [AnswerQuery] (show_favorite_recipe CallbackUpdate u mid s) = (out, s', fx)"
      using h c_other by (simp add: handle_favorites_navigation_def Let_def)
    from via_show_favorite_recipe [OF this] inv mirror show ?thesis
      by simp
  qed
qed

lemma show_favorites_start:
  assumes "show_favorites u mid s0 = (Inr ReturnFAVORITES, s, fx)"
  shows "sqlite_int u \<and> get_favs s = select_favorites u (table s0) \<and> get_favs s \<noteq> []
         \<and> get_favorite_index s = 0 \<and> table s = table s0
         \<and> favorites (ud s) = Some (select_favorites u (table s))"
proof -
  let ?fs = "select_favorites u (table s0)"
  let ?s1 = "s0\<lparr>ud := (ud s0)\<lparr>favorites := Some ?fs, current_favorite_index := Some 0\<rparr>\<rparr>"
  have su: "sqlite_int u"
  proof (rule ccontr)
    assume "\<not> sqlite_int u"
    then show False
      using assms by (simp add: show_favorites_def get_favorites_eq)
  qed
  have gf: "get_favorites u (table s0) = Inr ?fs"
    using su by (simp add: get_favorites_eq)
  have ne: "?fs \<noteq> []"
    using assms by (auto simp: show_favorites_def gf Let_def)
  obtain out1 s1' fx1 where r: "show_favorite_recipe MessageUpdate u mid ?s1 = (out1, s1', fx1)"
    by (cases "show_favorite_recipe MessageUpdate u mid ?s1") auto
  have "s = s1'"
    using assms ne r by (auto simp: show_favorites_def gf Let_def split: sum.splits)
  with show_favorite_recipe_frame [OF r] ne su show ?thesis
    by (simp add: get_favs_def get_favorite_index_def)
qed

lemma process_search_start:
  assumes "process_search lower text u key remote mid s0 = (Inr ReturnSEARCH, s, fx)"
  shows "get_recipes s = search_recipes lower key remote text \<and> get_recipes s \<noteq> []
         \<and> get_recipe_index s = 0 \<and> table s = table s0"
proof -
  let ?rs = "search_recipes lower key remote text"
  let ?s1 = "s0\<lparr>ud := (ud s0)\<lparr>recipes := Some ?rs, current_recipe_index := Some 0\<rparr>\<rparr>"
  have ne: "?rs \<noteq> []"
    using assms by (auto simp: process_search_def Let_def)
  obtain out1 s1' fx1 where r: "show_recipe MessageUpdate u mid ?s1 = (out1, s1', fx1)"
    by (cases "show_recipe MessageUpdate u mid ?s1") auto
  have "s = s1'"
    using assms ne r by (auto simp: process_search_def Let_def split: sum.splits)
  with show_recipe_frame [OF r] ne show ?thesis
    by (simp add: get_recipes_def get_recipe_index_def)
qed

lemma search_active_inv:
  "search_active lower u s \<Longrightarrow> session_inv (get_recipes s) (get_recipe_index s)"
proof (induction rule: search_active.induct)
  case (search_start ingredients env_key remote new_id s0 s fx)
  from process_search_start [OF this]
  have "get_recipes s \<noteq> []" and "get_recipe_index s = 0"
    by blast+
  then show ?case
    by (simp add: session_inv_def)
next
  case (search_nav s action new_id out s' fx)
  from recipe_navigation_step [OF search_nav(2)] search_nav(4) show ?case
    by blast
qed

lemma favorites_active_inv:
  "favorites_active u s \<Longrightarrow>
     session_inv (get_favs s) (get_favorite_index s)
     \<and> favorites (ud s) = Some (select_favorites u (table s))
     \<and> sqlite_int u"
proof (induction rule: favorites_active.induct)
  case (favorites_start new_id s0 s fx)
  from show_favorites_start [OF this]
  have "get_favs s \<noteq> []" and "get_favorite_index s = 0"
    and "favorites (ud s) = Some (select_favorites u (table s))" and "sqlite_int u"
    by blast+
  then show ?case
    by (simp add: session_inv_def)
next
  case (favorites_nav s action new_id out s' fx)
  from favorites_navigation_step [OF favorites_nav(2) _ _ favorites_nav(3)] favorites_nav(4)
  show ?case by blast
qed

text \<open>The scenario states are states of Active sessions.\<close>

lemma recipe_fields:
  "r_id pancakes = 2" "r_id broth = 6" "r_id stew = 9223372036854775808"
  "image_of broth = None" "image_of stew = None"
  "bind_favorite broth 7 = Some OverflowError"
  by (simp_all add: pancakes_def broth_def stew_def image_of_def bind_favorite_def
      bind_int_def bind_text_def sqlite_int_def sqlite_text_def ustr_def)

lemma search_eggs_milk: "search_recipes lower_basic None remote text_eggs_milk = basic_recipes"
  by (simp add: search_recipes_def call_spoonacular_api_def local_eggs_milk)

lemma search_remote:
  "search_recipes lower_basic (Some (ustr ''key''))
     (remote_answers 200 (JsonRecipes [omelette, broth, stew])) (ustr ''eggs'')
   = [omelette, broth, stew]"
  by (simp add: search_recipes_def call_spoonacular_api_def api_request_def ustr_def
      remote_answers_def)

lemma scenario_search_start:
  "\<exists>fx. process_search lower_basic text_eggs_milk 7 None remote_down 100 initial_bot
   = (Inr ReturnSEARCH, scenario_search, fx)"
  using omelette_fields
  by (auto simp add: process_search_def search_eggs_milk show_recipe_def get_recipes_def
      get_recipe_index_def initial_bot_def empty_user_data_def scenario_search_def
      basic_recipes_def py_index_def is_favorite_eq sqlite_int_small exists_favorite_def
      Let_def split: option.splits)

lemma scenario_search_active: "search_active lower_basic 7 scenario_search"
  using scenario_search_start by (blast intro: search_start)

lemma action_id_examples:
  "action_id ''fav_1'' = Inr 1" "action_id ''remove_1'' = Inr 1"
  "action_id ''remove_2'' = Inr 2" "action_id ''fav_6'' = Inr 6"
  "action_id ''remove_x'' = Inl ValueError"
  "action_id ''remove_9223372036854775808'' = Inr 9223372036854775808"
  "action_id ''fav_x'' = Inl ValueError"
  "action_id ''fav_9223372036854775808'' = Inr 9223372036854775808"
  by (simp_all add: action_id_def py_int_def digit_of_def int_space_def Let_def)

lemma scenario_fav_toggle:
  "handle_recipe_navigation ''fav_1'' 7 101 scenario_search
   = (Inr ReturnNone, scenario_search\<lparr>table := insert_favorite omelette 7 []\<rparr>,
      [AnswerQuery, EditReplyMarkup (Some (RecipeKeyboard True 1 1 2))])"
  by (simp add: handle_recipe_navigation_def action_id_examples get_recipes_def
      get_recipe_index_def scenario_search_def empty_user_data_def basic_recipes_def
      omelette_fields is_favorite_eq sqlite_int_small exists_favorite_def add_favorite_def
      insert_favorite_def get_recipe_keyboard_def Let_def)

lemma select_omelette: "select_favorites 7 (insert_favorite omelette 7 []) = [omelette]"
  by (simp add: select_favorites_def insert_favorite_def row_recipe_def omelette_def)

lemma scenario_favorites_start:
  "\<exists>fx. show_favorites 7 102 (scenario_search\<lparr>table := insert_favorite omelette 7 []\<rparr>)
   = (Inr ReturnFAVORITES, scenario_favorites, fx)"
  using omelette_fields
  by (auto simp add: show_favorites_def show_favorite_recipe_def get_favorites_eq
      sqlite_int_small select_omelette get_favs_def get_favorite_index_def scenario_search_def
      scenario_favorites_def empty_user_data_def py_index_def Let_def
      split: option.splits)

lemma scenario_favorites_active: "favorites_active 7 scenario_favorites"
  using scenario_favorites_start by (blast intro: favorites_start)

lemma scenario_search_items:
  "get_recipes scenario_search = basic_recipes" "get_recipe_index scenario_search = 0"
  "table scenario_search = []"
  by (simp_all add: scenario_search_def get_recipes_def get_recipe_index_def
      empty_user_data_def)

lemma scenario_favorites_items:
  "get_favs scenario_favorites = [omelette]" "get_favorite_index scenario_favorites = 0"
  "table scenario_favorites = insert_favorite omelette 7 []"
  by (simp_all add: scenario_favorites_def get_favs_def get_favorite_index_def
      empty_user_data_def)

lemma scenario_remote_items:
  "get_recipes (scenario_remote_at i) = [omelette, broth, stew]"
  "get_recipe_index (scenario_remote_at i) = i"
  "table (scenario_remote_at i) = []"
  by (simp_all add: scenario_remote_at_def get_recipes_def get_recipe_index_def
      empty_user_data_def)

lemma scenario_remote_move:
  "(scenario_remote_at i)\<lparr>ud := (ud (scenario_remote_at i))\<lparr>current_recipe_index := Some j\<rparr>\<rparr>
   = scenario_remote_at j"
  by (simp add: scenario_remote_at_def)

lemma scenario_remote_start:
  "\<exists>fx. process_search lower_basic (ustr ''eggs'') 7 (Some (ustr ''key''))
          (remote_answers 200 (JsonRecipes [omelette, broth, stew])) 100 initial_bot
   = (Inr ReturnSEARCH, scenario_remote_at 0, fx)"
  using omelette_fields
  by (auto simp add: process_search_def search_remote show_recipe_def get_recipes_def
      get_recipe_index_def initial_bot_def empty_user_data_def scenario_remote_at_def
      py_index_def is_favorite_eq sqlite_int_small exists_favorite_def
      Let_def split: option.splits)

lemma scenario_remote_next1:
  "handle_recipe_navigation ''next'' 7 101 (scenario_remote_at 0)
   = (Inr ReturnNone, scenario_remote_at 1,
      [AnswerQuery, DeleteMessage 100, SendMessage broth (RecipeKeyboard False 6 2 3)])"
proof -
  have "show_recipe CallbackUpdate 7 101 (scenario_remote_at 1)
        = (Inr ReturnNone, scenario_remote_at 1,
           [DeleteMessage 100, SendMessage broth (RecipeKeyboard False 6 2 3)])"
    by (simp add: show_recipe_def scenario_remote_items py_index_def recipe_fields
        is_favorite_eq sqlite_int_small exists_favorite_def Let_def)
       (simp add: scenario_remote_at_def empty_user_data_def)
  then show ?thesis
    by (simp add: handle_recipe_navigation_def scenario_remote_items scenario_remote_move
        then_show_def Let_def)
qed

lemma show_stew:
  "show_recipe CallbackUpdate 7 mid (scenario_remote_at 2)
   = (Inl OverflowError, scenario_remote_at 2, [])"
  by (simp add: show_recipe_def scenario_remote_items py_index_def recipe_fields
      is_favorite_eq sqlite_int_small Let_def)

lemma scenario_remote_next2:
  "handle_recipe_navigation ''next'' 7 102 (scenario_remote_at 1)
   = (Inl OverflowError, scenario_remote_at 2, [AnswerQuery])"
  by (simp add: handle_recipe_navigation_def scenario_remote_items scenario_remote_move
      show_stew then_show_def Let_def)

lemma scenario_remote_active:
  "search_active lower_basic 7 (scenario_remote_at 0)"
  "search_active lower_basic 7 (scenario_remote_at 1)"
  "search_active lower_basic 7 (scenario_remote_at 2)"
proof -
  show 0: "search_active lower_basic 7 (scenario_remote_at 0)"
    using scenario_remote_start by (blast intro: search_start)
  show 1: "search_active lower_basic 7 (scenario_remote_at 1)"
    using 0 scenario_remote_next1 by (rule search_nav) simp
  show "search_active lower_basic 7 (scenario_remote_at 2)"
    using 1 scenario_remote_next2 by (rule search_nav) simp
qed

lemma triple_eq: "p = (fst p, fst (snd p), snd (snd p))"
  by simp












text \<open>
  C5. In every Active session, of either mode, the items are not empty and
  \<open>0 \<le> cursor < len items\<close>; a session starts at cursor 0; and a favorites step that
  empties the items returns \<open>END\<close>.
\<close>

theorem cursor_invariant:
  "(search_active lower u s \<longrightarrow> session_inv (get_recipes s) (get_recipe_index s))
   \<and> (favorites_active u s \<longrightarrow> session_inv (get_favs s) (get_favorite_index s))
   \<and> (process_search lower text u key remote mid s0 = (Inr ReturnSEARCH, s, fx)
        \<longrightarrow> get_recipes s \<noteq> [] \<and> get_recipe_index s = 0)
   \<and> (show_favorites u mid s0 = (Inr ReturnFAVORITES, s, fx)
        \<longrightarrow> get_favs s \<noteq> [] \<and> get_favorite_index s = 0)
   \<and> (favorites_active u s \<and> handle_favorites_navigation a u mid s = (out, s', fx')
        \<and> get_favs s' = [] \<longrightarrow> out = Inr ReturnEND)"
proof (intro conjI impI)
  assume "search_active lower u s"
  then show "session_inv (get_recipes s) (get_recipe_index s)"
    by (rule search_active_inv)
next
  assume "favorites_active u s"
  from favorites_active_inv [OF this]
  show "session_inv (get_favs s) (get_favorite_index s)"
    by blast
next
  assume "process_search lower text u key remote mid s0 = (Inr ReturnSEARCH, s, fx)"
  from process_search_start [OF this]
  show "get_recipes s \<noteq> []" "get_recipe_index s = 0"
    by blast+
next
  assume "show_favorites u mid s0 = (Inr ReturnFAVORITES, s, fx)"
  from show_favorites_start [OF this]
  show "get_favs s \<noteq> []" "get_favorite_index s = 0"
    by blast+
next
  assume a: "favorites_active u s \<and> handle_favorites_navigation a u mid s = (out, s', fx')
        \<and> get_favs s' = []"
  show "out = Inr ReturnEND"
  proof (rule ccontr)
    assume "out \<noteq> Inr ReturnEND"
    with a have "favorites_active u s'"
      by (blast intro: favorites_nav)
    from favorites_active_inv [OF this] a show False
      by (simp add: session_inv_def)
  qed
qed

theorem cursor_invariant_witness:
  "search_active lower_basic 7 scenario_search
   \<and> session_inv (get_recipes scenario_search) (get_recipe_index scenario_search)
   \<and> get_recipe_index scenario_search = 0
   \<and> favorites_active 7 scenario_favorites
   \<and> session_inv (get_favs scenario_favorites) (get_favorite_index scenario_favorites)
   \<and> get_favorite_index scenario_favorites = 0
   \<and> fst (handle_favorites_navigation ''remove_1'' 7 103 scenario_favorites) = Inr ReturnEND"
proof -
  let ?h = "handle_favorites_navigation ''remove_1'' 7 103 scenario_favorites"
  obtain fx1 where p: "process_search lower_basic text_eggs_milk 7 None remote_down 100
      initial_bot = (Inr ReturnSEARCH, scenario_search, fx1)"
    using scenario_search_start by blast
  obtain fx2 where q: "show_favorites 7 102
      (scenario_search\<lparr>table := insert_favorite omelette 7 []\<rparr>)
      = (Inr ReturnFAVORITES, scenario_favorites, fx2)"
    using scenario_favorites_start by blast
  have sw: "startswith ''remove_1'' ''remove_''"
    by simp
  have inv: "session_inv (get_favs scenario_favorites) (get_favorite_index scenario_favorites)"
    by (simp add: scenario_favorites_items session_inv_def)
  have ok: "sqlite_int 1 \<and> sqlite_int 7"
    by (simp add: sqlite_int_small)
  have "favorites (ud (fst (snd ?h))) = Some []"
    using favorites_remove_step [OF sw action_id_examples(2) triple_eq [of ?h] inv ok,
        THEN conjunct2, THEN conjunct1]
    by (simp add: scenario_favorites_items omelette_fields)
  then have emp: "get_favs (fst (snd ?h)) = []"
    by (simp add: get_favs_def)
  have 1: "session_inv (get_recipes scenario_search) (get_recipe_index scenario_search)"
    using cursor_invariant [of lower_basic 7 scenario_search, THEN conjunct1]
      scenario_search_active
    by blast
  have 2: "session_inv (get_favs scenario_favorites) (get_favorite_index scenario_favorites)"
    using cursor_invariant [of _ 7 scenario_favorites, THEN conjunct2, THEN conjunct1]
      scenario_favorites_active
    by blast
  have 3: "get_recipe_index scenario_search = 0"
    using cursor_invariant [of lower_basic 7 scenario_search text_eggs_milk None remote_down
        100 initial_bot fx1, THEN conjunct2, THEN conjunct2, THEN conjunct1] p
    by blast
  have 4: "get_favorite_index scenario_favorites = 0"
    using cursor_invariant [of _ 7 scenario_favorites _ _ _ 102
        "scenario_search\<lparr>table := insert_favorite omelette 7 []\<rparr>" fx2,
        THEN conjunct2, THEN conjunct2, THEN conjunct2, THEN conjunct1] q
    by blast
  have 5: "fst ?h = Inr ReturnEND"
    using cursor_invariant [of _ 7 scenario_favorites _ _ _ 103 _ _ "''remove_1''"
        "fst ?h" "fst (snd ?h)" "snd (snd ?h)",
        THEN conjunct2, THEN conjunct2, THEN conjunct2, THEN conjunct2]
      scenario_favorites_active triple_eq [of ?h] emp
    by blast
  show ?thesis
    using 1 2 3 4 5 scenario_search_active scenario_favorites_active by blast
qed

text \<open>
  C6. In an Active favorites session a \<open>remove_<id>\<close> action whose id fits the 64 bits of
  an SQLite INTEGER deletes the rows of the pair from the table and the entries of that
  id from the items. When no item is left the handler returns \<open>END\<close> with the "no
  favorites left" reply and the table has no row of the user; otherwise the session stays
  Active and the cursor is \<open>min cursor (len items - 1)\<close>. With an id outside the 64 bits
  the handler raises \<open>OverflowError\<close> and changes nothing: a table that SQLite can hold
  has no row of that id and the items no entry, the session stays Active and the cursor
  is where it was. With an id that does not parse the handler raises before it removes
  anything, and the session stays Active.
\<close>

theorem remove_favorite_transition:
  assumes act: "favorites_active u s"
    and sw: "startswith a ''remove_''"
    and h: "handle_favorites_navigation a u mid s = (out, s', fx)"
  shows "(action_id a = Inr rid \<and> sqlite_int rid \<longrightarrow>
            table s' = delete_favorite rid u (table s)
            \<and> get_favs s' = filter (\<lambda>f. r_id f \<noteq> rid) (get_favs s)
            \<and> (get_favs s' = []
                 \<longrightarrow> out = Inr ReturnEND \<and> fx = [AnswerQuery, ReplyText NoFavoritesLeft]
                     \<and> get_favorites u (table s') = Inr [])
            \<and> (get_favs s' \<noteq> []
                 \<longrightarrow> out = Inr ReturnNone \<and> favorites_active u s'
                     \<and> get_favorite_index s'
                         = min (get_favorite_index s) (int (length (get_favs s')) - 1)))
         \<and> (action_id a = Inr rid \<and> \<not> sqlite_int rid \<longrightarrow>
              out = Inl OverflowError \<and> s' = s \<and> fx = [AnswerQuery]
              \<and> favorites_active u s'
              \<and> get_favorite_index s'
                  = min (get_favorite_index s) (int (length (get_favs s')) - 1)
              \<and> (table_wf (table s)
                   \<longrightarrow> table s' = delete_favorite rid u (table s)
                       \<and> get_favs s' = filter (\<lambda>f. r_id f \<noteq> rid) (get_favs s)
                       \<and> get_favs s' \<noteq> []))
         \<and> (action_id a = Inl e \<longrightarrow>
              out = Inl e \<and> s' = s \<and> fx = [AnswerQuery] \<and> favorites_active u s')"
proof -
  let ?fs' = "filter (\<lambda>f. r_id f \<noteq> rid) (get_favs s)"
  from favorites_active_inv [OF act]
  have inv: "session_inv (get_favs s) (get_favorite_index s)"
    and mirror: "favorites (ud s) = Some (select_favorites u (table s))"
    and su: "sqlite_int u"
    by blast+
  have fs: "select_favorites u (table s) = get_favs s"
    using mirror by (simp add: get_favs_def)
  have clamped: "get_favorite_index s = min (get_favorite_index s) (int (length (get_favs s)) - 1)"
    using inv by (simp add: session_inv_def)
  have ne: "get_favs s \<noteq> []"
    using inv by (simp add: session_inv_def)
  have 1: "table s' = delete_favorite rid u (table s)
           \<and> get_favs s' = ?fs'
           \<and> (get_favs s' = []
                \<longrightarrow> out = Inr ReturnEND \<and> fx = [AnswerQuery, ReplyText NoFavoritesLeft]
                    \<and> get_favorites u (table s') = Inr [])
           \<and> (get_favs s' \<noteq> []
                \<longrightarrow> out = Inr ReturnNone \<and> favorites_active u s'
                    \<and> get_favorite_index s'
                        = min (get_favorite_index s) (int (length (get_favs s')) - 1))"
    if p: "action_id a = Inr rid \<and> sqlite_int rid"
  proof -
    have aid: "action_id a = Inr rid" and ok: "sqlite_int rid \<and> sqlite_int u"
      using p su by simp_all
    note st = favorites_remove_step [OF sw aid h inv ok]
    have t: "table s' = delete_favorite rid u (table s)"
      using st by blast
    have g: "get_favs s' = ?fs'"
      using st by (simp add: get_favs_def)
    have store: "get_favorites u (table s') = Inr ?fs'"
      using su by (simp add: get_favorites_eq t select_delete fs)
    have e: "out = Inr ReturnEND \<and> fx = [AnswerQuery, ReplyText NoFavoritesLeft]
             \<and> get_favorites u (table s') = Inr []"
      if "get_favs s' = []"
      using st that g store by simp
    have n: "out = Inr ReturnNone \<and> favorites_active u s'
             \<and> get_favorite_index s'
                 = min (get_favorite_index s) (int (length (get_favs s')) - 1)"
      if ne': "get_favs s' \<noteq> []"
    proof -
      have o: "out = Inr ReturnNone"
        using st ne' g by simp
      have i: "get_favorite_index s'
               = min (get_favorite_index s) (int (length (get_favs s')) - 1)"
        using st ne' g by simp
      have "favorites_active u s'"
        using act h by (rule favorites_nav) (simp add: o)
      with o i show ?thesis by simp
    qed
    show ?thesis using t g e n by blast
  qed
  have 2: "out = Inl OverflowError \<and> s' = s \<and> fx = [AnswerQuery]
           \<and> favorites_active u s'
           \<and> get_favorite_index s'
               = min (get_favorite_index s) (int (length (get_favs s')) - 1)
           \<and> (table_wf (table s)
                \<longrightarrow> table s' = delete_favorite rid u (table s)
                    \<and> get_favs s' = ?fs' \<and> get_favs s' \<noteq> [])"
    if p: "action_id a = Inr rid \<and> \<not> sqlite_int rid"
  proof -
    have aid: "action_id a = Inr rid" and no: "\<not> (sqlite_int rid \<and> sqlite_int u)"
      and nr: "\<not> sqlite_int rid"
      using p by simp_all
    note st = favorites_remove_raise [OF sw aid h no]
    have same: "s' = s"
      using st by blast
    have w: "table s' = delete_favorite rid u (table s) \<and> get_favs s' = ?fs'
             \<and> get_favs s' \<noteq> []"
      if "table_wf (table s)"
      using table_wf_no_row [OF that nr, of u] same fs ne by simp
    show ?thesis using st same act clamped w by simp
  qed
  have 3: "out = Inl e \<and> s' = s \<and> fx = [AnswerQuery] \<and> favorites_active u s'"
    if p: "action_id a = Inl e"
    using favorites_unparsed [OF sw p h] act by simp
  show ?thesis using 1 2 3 by blast
qed

theorem remove_favorite_transition_witness:
  "fst (handle_favorites_navigation ''remove_1'' 7 103 scenario_favorites) = Inr ReturnEND
   \<and> snd (snd (handle_favorites_navigation ''remove_1'' 7 103 scenario_favorites))
       = [AnswerQuery, ReplyText NoFavoritesLeft]
   \<and> get_favs (fst (snd (handle_favorites_navigation ''remove_1'' 7 103 scenario_favorites))) = []
   \<and> get_favorites 7
       (table (fst (snd (handle_favorites_navigation ''remove_1'' 7 103 scenario_favorites))))
       = Inr []
   \<and> fst (handle_favorites_navigation ''remove_2'' 7 103 scenario_favorites) = Inr ReturnNone
   \<and> get_favs (fst (snd (handle_favorites_navigation ''remove_2'' 7 103 scenario_favorites)))
       = [omelette]
   \<and> get_favorite_index
       (fst (snd (handle_favorites_navigation ''remove_2'' 7 103 scenario_favorites))) = 0
   \<and> handle_favorites_navigation ''remove_9223372036854775808'' 7 103 scenario_favorites
       = (Inl OverflowError, scenario_favorites, [AnswerQuery])
   \<and> delete_favorite 9223372036854775808 7 (table scenario_favorites)
       = table scenario_favorites
   \<and> handle_favorites_navigation ''remove_x'' 7 103 scenario_favorites
       = (Inl ValueError, scenario_favorites, [AnswerQuery])"
proof -
  let ?h1 = "handle_favorites_navigation ''remove_1'' 7 103 scenario_favorites"
  let ?h2 = "handle_favorites_navigation ''remove_2'' 7 103 scenario_favorites"
  let ?h3 = "handle_favorites_navigation ''remove_9223372036854775808'' 7 103
               scenario_favorites"
  let ?h4 = "handle_favorites_navigation ''remove_x'' 7 103 scenario_favorites"
  have sw1: "startswith ''remove_1'' ''remove_''" and sw2: "startswith ''remove_2'' ''remove_''"
    and sw3: "startswith ''remove_9223372036854775808'' ''remove_''"
    and sw4: "startswith ''remove_x'' ''remove_''"
    by simp_all
  note r1 = remove_favorite_transition
      [OF scenario_favorites_active sw1 triple_eq [of ?h1], of 1, THEN conjunct1]
  note r2 = remove_favorite_transition
      [OF scenario_favorites_active sw2 triple_eq [of ?h2], of 2, THEN conjunct1]
  note r3 = remove_favorite_transition
      [OF scenario_favorites_active sw3 triple_eq [of ?h3], of 9223372036854775808,
       THEN conjunct2, THEN conjunct1]
  note r4 = remove_favorite_transition
      [OF scenario_favorites_active sw4 triple_eq [of ?h4], of _ ValueError,
       THEN conjunct2, THEN conjunct2]
  have a1: "table (fst (snd ?h1)) = delete_favorite 1 7 (table scenario_favorites)
      \<and> get_favs (fst (snd ?h1)) = filter (\<lambda>f. r_id f \<noteq> 1) (get_favs scenario_favorites)
      \<and> (get_favs (fst (snd ?h1)) = []
           \<longrightarrow> fst ?h1 = Inr ReturnEND
               \<and> snd (snd ?h1) = [AnswerQuery, ReplyText NoFavoritesLeft]
               \<and> get_favorites 7 (table (fst (snd ?h1))) = Inr [])
      \<and> (get_favs (fst (snd ?h1)) \<noteq> []
           \<longrightarrow> fst ?h1 = Inr ReturnNone \<and> favorites_active 7 (fst (snd ?h1))
               \<and> get_favorite_index (fst (snd ?h1))
                   = min (get_favorite_index scenario_favorites)
                       (int (length (get_favs (fst (snd ?h1)))) - 1))"
    using r1 action_id_examples(2) sqlite_int_small(1) by blast
  have g1: "get_favs (fst (snd ?h1)) = []"
    using a1 [THEN conjunct2, THEN conjunct1]
    by (simp add: scenario_favorites_items omelette_fields)
  have 1: "fst ?h1 = Inr ReturnEND
           \<and> snd (snd ?h1) = [AnswerQuery, ReplyText NoFavoritesLeft]
           \<and> get_favorites 7 (table (fst (snd ?h1))) = Inr []"
    using a1 [THEN conjunct2, THEN conjunct2, THEN conjunct1] g1 by blast
  have a2: "table (fst (snd ?h2)) = delete_favorite 2 7 (table scenario_favorites)
      \<and> get_favs (fst (snd ?h2)) = filter (\<lambda>f. r_id f \<noteq> 2) (get_favs scenario_favorites)
      \<and> (get_favs (fst (snd ?h2)) = []
           \<longrightarrow> fst ?h2 = Inr ReturnEND
               \<and> snd (snd ?h2) = [AnswerQuery, ReplyText NoFavoritesLeft]
               \<and> get_favorites 7 (table (fst (snd ?h2))) = Inr [])
      \<and> (get_favs (fst (snd ?h2)) \<noteq> []
           \<longrightarrow> fst ?h2 = Inr ReturnNone \<and> favorites_active 7 (fst (snd ?h2))
               \<and> get_favorite_index (fst (snd ?h2))
                   = min (get_favorite_index scenario_favorites)
                       (int (length (get_favs (fst (snd ?h2)))) - 1))"
    using r2 action_id_examples(3) sqlite_int_small(2) by blast
  have g2: "get_favs (fst (snd ?h2)) = [omelette]"
    using a2 [THEN conjunct2, THEN conjunct1]
    by (simp add: scenario_favorites_items omelette_fields)
  have "fst ?h2 = Inr ReturnNone
        \<and> get_favorite_index (fst (snd ?h2))
            = min (get_favorite_index scenario_favorites)
                (int (length (get_favs (fst (snd ?h2)))) - 1)"
    using a2 [THEN conjunct2, THEN conjunct2, THEN conjunct2] g2 by simp
  then have 2: "fst ?h2 = Inr ReturnNone \<and> get_favorite_index (fst (snd ?h2)) = 0"
    by (simp add: g2 scenario_favorites_items)
  have wf: "table_wf (table scenario_favorites)"
    using table_wf_kept(2) [OF table_wf_kept(1), of omelette 7]
    by (simp add: scenario_favorites_items add_favorite_def omelette_fields)
  have a3: "fst ?h3 = Inl OverflowError \<and> fst (snd ?h3) = scenario_favorites
        \<and> snd (snd ?h3) = [AnswerQuery]
        \<and> table (fst (snd ?h3))
            = delete_favorite 9223372036854775808 7 (table scenario_favorites)"
    using r3 action_id_examples(6) sqlite_int_small(5) wf by blast
  then have 3: "?h3 = (Inl OverflowError, scenario_favorites, [AnswerQuery])"
    using triple_eq [of ?h3] by simp
  have x3: "fst (snd ?h3) = scenario_favorites"
    using a3 by blast
  have y3: "table (fst (snd ?h3))
            = delete_favorite 9223372036854775808 7 (table scenario_favorites)"
    using a3 by blast
  have d3: "delete_favorite 9223372036854775808 7 (table scenario_favorites)
            = table scenario_favorites"
    using y3 unfolding x3 by (rule sym)
  have "fst ?h4 = Inl ValueError \<and> fst (snd ?h4) = scenario_favorites
        \<and> snd (snd ?h4) = [AnswerQuery]"
    using r4 action_id_examples(5) by blast
  then have 4: "?h4 = (Inl ValueError, scenario_favorites, [AnswerQuery])"
    using triple_eq [of ?h4] by simp
  show ?thesis using 1 2 3 d3 4 g1 g2 by blast
qed

lemma find_id: "find (\<lambda>r. r_id r = rid) rs = Some r \<Longrightarrow> r_id r = rid"
  by (induction rs) (auto split: if_splits)

lemma fav_unparsed:
  assumes sw: "startswith a ''fav_''"
    and aid: "action_id a = Inl e"
  shows "handle_recipe_navigation a u mid s = (Inl e, s, [AnswerQuery])"
  using sw aid startswith_fav_not_nav [OF sw]
  by (simp add: handle_recipe_navigation_def Let_def)

lemma fav_not_found:
  assumes sw: "startswith a ''fav_''"
    and aid: "action_id a = Inr rid"
    and nf: "find (\<lambda>r. r_id r = rid) (get_recipes s) = None"
  shows "handle_recipe_navigation a u mid s = (Inr ReturnNone, s, [AnswerQuery])"
  using sw aid nf startswith_fav_not_nav [OF sw]
  by (simp add: handle_recipe_navigation_def Let_def)

lemma fav_found:
  assumes sw: "startswith a ''fav_''"
    and aid: "action_id a = Inr rid"
    and f: "find (\<lambda>r. r_id r = rid) (get_recipes s) = Some r"
  shows "handle_recipe_navigation a u mid s =
     (case is_favorite rid u (table s) of
        Inl e \<Rightarrow> (Inl e, s, [AnswerQuery])
      | Inr is_fav \<Rightarrow>
          (case (if is_fav then remove_favorite rid u (table s)
                 else add_favorite r u (table s)) of
             Inl e \<Rightarrow> (Inl e, s, [AnswerQuery])
           | Inr tbl \<Rightarrow>
               (case get_recipe_keyboard r u (get_recipe_index s)
                       (int (length (get_recipes s))) tbl of
                  Inl e \<Rightarrow> (Inl e, s\<lparr>table := tbl\<rparr>, [AnswerQuery])
                | Inr reply_markup \<Rightarrow>
                    (Inr ReturnNone, s\<lparr>table := tbl\<rparr>,
                     [AnswerQuery, EditReplyMarkup (Some reply_markup)]))))"
  using sw aid f startswith_fav_not_nav [OF sw]
  by (simp add: handle_recipe_navigation_def Let_def)

text \<open>
  C8 (as amended). A \<open>fav_<id>\<close> action leaves \<open>user_data\<close>, so cursor and items, as it
  is. When the id parses and is the id of a recipe of the list, the handler asks
  \<open>is_favorite\<close>, removes the favorite if it is one and adds it otherwise, and sends nothing
  but the answer to the query and an edit of the keyboard, whose first button shows the
  new status. That is so when the store takes the values. When \<open>is_favorite\<close> raises, or
  \<open>add_favorite\<close> cannot bind the recipe, the handler raises, the table is as it was and no
  keyboard is edited. When the id is of no recipe of the list nothing changes, and when it
  does not parse the handler raises and nothing changes.
\<close>

theorem toggle_favorite_frame:
  assumes sw: "startswith a ''fav_''"
    and h: "handle_recipe_navigation a u mid s = (out, s', fx)"
  shows "ud s' = ud s
         \<and> (action_id a = Inr rid \<and> find (\<lambda>r. r_id r = rid) (get_recipes s) = Some r
            \<and> is_favorite rid u (table s) = Inr b \<and> (b \<or> bind_favorite r u = None)
            \<longrightarrow> out = Inr ReturnNone
                \<and> table s' = (if b then delete_favorite rid u (table s)
                              else insert_favorite r u (table s))
                \<and> is_favorite rid u (table s') = Inr (\<not> b)
                \<and> fx = [AnswerQuery,
                        EditReplyMarkup (Some (RecipeKeyboard (\<not> b) rid
                          (get_recipe_index s + 1) (int (length (get_recipes s)))))])
         \<and> (action_id a = Inr rid \<and> find (\<lambda>r. r_id r = rid) (get_recipes s) = Some r
            \<and> is_favorite rid u (table s) = Inr False \<and> bind_favorite r u = Some e
            \<longrightarrow> out = Inl e \<and> s' = s \<and> fx = [AnswerQuery])
         \<and> (action_id a = Inr rid \<and> find (\<lambda>r. r_id r = rid) (get_recipes s) = Some r
            \<and> is_favorite rid u (table s) = Inl e
            \<longrightarrow> out = Inl e \<and> s' = s \<and> fx = [AnswerQuery])
         \<and> (action_id a = Inr rid \<and> find (\<lambda>r. r_id r = rid) (get_recipes s) = None
            \<longrightarrow> out = Inr ReturnNone \<and> s' = s \<and> fx = [AnswerQuery])
         \<and> (action_id a = Inl e \<longrightarrow> out = Inl e \<and> s' = s \<and> fx = [AnswerQuery])"
proof -
  have "s' = fst (snd (handle_recipe_navigation a u mid s))"
    by (simp add: h)
  then have 1: "ud s' = ud s"
    by (simp add: fav_action_state [OF sw])
  have 2: "out = Inr ReturnNone
           \<and> table s' = (if b then delete_favorite rid u (table s)
                         else insert_favorite r u (table s))
           \<and> is_favorite rid u (table s') = Inr (\<not> b)
           \<and> fx = [AnswerQuery,
                   EditReplyMarkup (Some (RecipeKeyboard (\<not> b) rid
                     (get_recipe_index s + 1) (int (length (get_recipes s)))))]"
    if p: "action_id a = Inr rid \<and> find (\<lambda>r. r_id r = rid) (get_recipes s) = Some r
            \<and> is_favorite rid u (table s) = Inr b \<and> (b \<or> bind_favorite r u = None)"
  proof -
    have aid: "action_id a = Inr rid"
      and f: "find (\<lambda>r. r_id r = rid) (get_recipes s) = Some r"
      and isf: "is_favorite rid u (table s) = Inr b"
      and bd: "b \<or> bind_favorite r u = None"
      using p by simp_all
    have rid: "r_id r = rid"
      using f by (rule find_id)
    have ok: "sqlite_int rid \<and> sqlite_int u"
      using isf by (simp add: is_favorite_eq split: if_splits)
    let ?tbl = "if b then delete_favorite rid u (table s) else insert_favorite r u (table s)"
    have step: "(if b then remove_favorite rid u (table s) else add_favorite r u (table s))
                = Inr ?tbl"
      using ok bd by (auto simp: remove_favorite_eq add_favorite_def)
    have ex: "exists_favorite rid u ?tbl = (\<not> b)"
      using exists_insert [of r u "table s"] exists_delete [of rid u "table s"] rid
      by auto
    have after: "is_favorite rid u ?tbl = Inr (\<not> b)"
      using ok ex by (simp add: is_favorite_eq)
    have kb: "get_recipe_keyboard r u (get_recipe_index s) (int (length (get_recipes s))) ?tbl
              = Inr (RecipeKeyboard (\<not> b) rid (get_recipe_index s + 1)
                       (int (length (get_recipes s))))"
      using after rid by (simp add: get_recipe_keyboard_def)
    have "(out, s', fx)
          = (Inr ReturnNone, s\<lparr>table := ?tbl\<rparr>,
             [AnswerQuery, EditReplyMarkup (Some (RecipeKeyboard (\<not> b) rid
                (get_recipe_index s + 1) (int (length (get_recipes s)))))])"
      using h by (simp only: fav_found [OF sw aid f] isf step kb sum.case)
    then show ?thesis
      using after by simp
  qed
  have 3: "out = Inl e \<and> s' = s \<and> fx = [AnswerQuery]"
    if p: "action_id a = Inr rid \<and> find (\<lambda>r. r_id r = rid) (get_recipes s) = Some r
            \<and> is_favorite rid u (table s) = Inr False \<and> bind_favorite r u = Some e"
  proof -
    have aid: "action_id a = Inr rid"
      and f: "find (\<lambda>r. r_id r = rid) (get_recipes s) = Some r"
      and isf: "is_favorite rid u (table s) = Inr False"
      and bd: "bind_favorite r u = Some e"
      using p by blast+
    have "(out, s', fx) = (Inl e, s, [AnswerQuery])"
      using h by (simp add: fav_found [OF sw aid f] isf add_favorite_def bd)
    then show ?thesis by simp
  qed
  have 4: "out = Inl e \<and> s' = s \<and> fx = [AnswerQuery]"
    if p: "action_id a = Inr rid \<and> find (\<lambda>r. r_id r = rid) (get_recipes s) = Some r
            \<and> is_favorite rid u (table s) = Inl e"
  proof -
    have aid: "action_id a = Inr rid"
      and f: "find (\<lambda>r. r_id r = rid) (get_recipes s) = Some r"
      and isf: "is_favorite rid u (table s) = Inl e"
      using p by blast+
    have "(out, s', fx) = (Inl e, s, [AnswerQuery])"
      using h by (simp add: fav_found [OF sw aid f] isf)
    then show ?thesis by simp
  qed
  have 5: "out = Inr ReturnNone \<and> s' = s \<and> fx = [AnswerQuery]"
    if p: "action_id a = Inr rid \<and> find (\<lambda>r. r_id r = rid) (get_recipes s) = None"
  proof -
    have "(out, s', fx) = (Inr ReturnNone, s, [AnswerQuery])"
      using h p fav_not_found [OF sw, of rid s u mid] by simp
    then show ?thesis by simp
  qed
  have 6: "out = Inl e \<and> s' = s \<and> fx = [AnswerQuery]"
    if p: "action_id a = Inl e"
  proof -
    have "(out, s', fx) = (Inl e, s, [AnswerQuery])"
      using h fav_unparsed [OF sw p, of u mid s] by simp
    then show ?thesis by simp
  qed
  show ?thesis using 1 2 3 4 5 6 by blast
qed

theorem toggle_favorite_frame_witness:
  "fst (handle_recipe_navigation ''fav_1'' 7 101 scenario_search) = Inr ReturnNone
   \<and> ud (fst (snd (handle_recipe_navigation ''fav_1'' 7 101 scenario_search)))
       = ud scenario_search
   \<and> table (fst (snd (handle_recipe_navigation ''fav_1'' 7 101 scenario_search)))
       = insert_favorite omelette 7 []
   \<and> is_favorite 1 7 (table (fst (snd (handle_recipe_navigation ''fav_1'' 7 101
        scenario_search)))) = Inr True
   \<and> snd (snd (handle_recipe_navigation ''fav_1'' 7 101 scenario_search))
       = [AnswerQuery, EditReplyMarkup (Some (RecipeKeyboard True 1 1 2))]
   \<and> handle_recipe_navigation ''fav_6'' 7 101 scenario_search
       = (Inr ReturnNone, scenario_search, [AnswerQuery])
   \<and> handle_recipe_navigation ''fav_x'' 7 101 scenario_search
       = (Inl ValueError, scenario_search, [AnswerQuery])
   \<and> handle_recipe_navigation ''fav_9223372036854775808'' 7 101 (scenario_remote_at 2)
       = (Inl OverflowError, scenario_remote_at 2, [AnswerQuery])"
proof -
  let ?h = "handle_recipe_navigation ''fav_1'' 7 101 scenario_search"
  let ?h5 = "handle_recipe_navigation ''fav_6'' 7 101 scenario_search"
  let ?h6 = "handle_recipe_navigation ''fav_x'' 7 101 scenario_search"
  let ?h4 = "handle_recipe_navigation ''fav_9223372036854775808'' 7 101 (scenario_remote_at 2)"
  have sw: "startswith ''fav_1'' ''fav_''" and sw5: "startswith ''fav_6'' ''fav_''"
    and sw6: "startswith ''fav_x'' ''fav_''"
    and sw4: "startswith ''fav_9223372036854775808'' ''fav_''"
    by simp_all
  have f: "find (\<lambda>r. r_id r = 1) (get_recipes scenario_search) = Some omelette"
    by (simp add: scenario_search_items basic_recipes_def omelette_fields)
  have nf: "is_favorite 1 7 (table scenario_search) = Inr False"
    by (simp add: scenario_search_items is_favorite_eq sqlite_int_small exists_favorite_def)
  note t = toggle_favorite_frame [OF sw triple_eq [of ?h], of 1 omelette False]
  have 1: "ud (fst (snd ?h)) = ud scenario_search"
    using t [THEN conjunct1] .
  have 2: "fst ?h = Inr ReturnNone
           \<and> table (fst (snd ?h)) = (if False then delete_favorite 1 7 (table scenario_search)
                                     else insert_favorite omelette 7 (table scenario_search))
           \<and> is_favorite 1 7 (table (fst (snd ?h))) = Inr (\<not> False)
           \<and> snd (snd ?h) = [AnswerQuery,
                EditReplyMarkup (Some (RecipeKeyboard (\<not> False) 1
                  (get_recipe_index scenario_search + 1)
                  (int (length (get_recipes scenario_search)))))]"
    using t [THEN conjunct2, THEN conjunct1] action_id_examples(1) f nf omelette_fields(3)
    by blast
  have a: "fst ?h = Inr ReturnNone"
    using 2 by blast
  have b: "table (fst (snd ?h)) = insert_favorite omelette 7 []"
    using 2 [THEN conjunct2, THEN conjunct1] by (simp add: scenario_search_items)
  have c: "is_favorite 1 7 (table (fst (snd ?h))) = Inr True"
    using 2 [THEN conjunct2, THEN conjunct2, THEN conjunct1] by simp
  have d: "snd (snd ?h) = [AnswerQuery, EditReplyMarkup (Some (RecipeKeyboard True 1 1 2))]"
    using 2 [THEN conjunct2, THEN conjunct2, THEN conjunct2]
    by (simp add: scenario_search_items basic_recipes_def)
  have f5: "find (\<lambda>r. r_id r = 6) (get_recipes scenario_search) = None"
    by (simp add: scenario_search_items basic_recipes_def omelette_fields recipe_fields)
  have "fst ?h5 = Inr ReturnNone \<and> fst (snd ?h5) = scenario_search
        \<and> snd (snd ?h5) = [AnswerQuery]"
    using toggle_favorite_frame [OF sw5 triple_eq [of ?h5], of 6,
        THEN conjunct2, THEN conjunct2, THEN conjunct2, THEN conjunct2, THEN conjunct1]
      action_id_examples(4) f5
    by blast
  then have 5: "?h5 = (Inr ReturnNone, scenario_search, [AnswerQuery])"
    using triple_eq [of ?h5] by simp
  have "fst ?h6 = Inl ValueError \<and> fst (snd ?h6) = scenario_search
        \<and> snd (snd ?h6) = [AnswerQuery]"
    using toggle_favorite_frame [OF sw6 triple_eq [of ?h6], of _ _ _ ValueError,
        THEN conjunct2, THEN conjunct2, THEN conjunct2, THEN conjunct2, THEN conjunct2]
      action_id_examples(7)
    by blast
  then have 6: "?h6 = (Inl ValueError, scenario_search, [AnswerQuery])"
    using triple_eq [of ?h6] by simp
  have f4: "find (\<lambda>r. r_id r = 9223372036854775808) (get_recipes (scenario_remote_at 2))
            = Some stew"
    by (simp add: scenario_remote_items omelette_fields recipe_fields)
  have i4: "is_favorite 9223372036854775808 7 (table (scenario_remote_at 2))
            = Inl OverflowError"
    by (simp add: is_favorite_eq sqlite_int_small)
  have "fst ?h4 = Inl OverflowError \<and> fst (snd ?h4) = scenario_remote_at 2
        \<and> snd (snd ?h4) = [AnswerQuery]"
    using toggle_favorite_frame [OF sw4 triple_eq [of ?h4],
        of 9223372036854775808 stew _ OverflowError,
        THEN conjunct2, THEN conjunct2, THEN conjunct2, THEN conjunct1]
      action_id_examples(8) f4 i4
    by blast
  then have 4: "?h4 = (Inl OverflowError, scenario_remote_at 2, [AnswerQuery])"
    using triple_eq [of ?h4] by simp
  show ?thesis
    using 1 a b c d 4 5 6 by blast
qed

text \<open>
  C8 as stated fails: user 7 has searched, the cursor is on a recipe of the remote service
  whose \<open>usedIngredientCount\<close> is \<open>2^63\<close>, and the user presses its favorite button.
  \<open>is_favorite\<close> says no, \<open>add_favorite\<close> raises \<open>OverflowError\<close>, the table stays empty
  and the keyboard is not edited.
\<close>

theorem toggle_overflow_counterexample:
  "search_active lower_basic 7 (scenario_remote_at 1)
   \<and> py_index (get_recipes (scenario_remote_at 1)) (get_recipe_index (scenario_remote_at 1))
       = Some broth
   \<and> handle_recipe_navigation ''fav_6'' 7 103 (scenario_remote_at 1)
       = (Inl OverflowError, scenario_remote_at 1, [AnswerQuery])"
  using scenario_remote_active(2)
  by (simp add: handle_recipe_navigation_def scenario_remote_items py_index_def
      action_id_examples omelette_fields recipe_fields is_favorite_eq sqlite_int_small
      exists_favorite_def add_favorite_def Let_def)

end
